theory Spec2Isabelle
  imports Complex_Main "HOL-Library.Word" "HOL-Library.Char_ord" "HOL-Library.List_Lexorder"
begin

unbundle bit_operations_syntax

section \<open>Python exceptions and results\<close>

text \<open>
  The notebooks are Python. An exception that leaves a function or a cell is a value
  \<open>Inl e\<close> of the result; a normal return is \<open>Inr v\<close>. The constructors are the
  exception classes the cells can meet; \<open>KeyboardInterrupt\<close> and \<open>SystemExit\<close> derive
  from \<open>BaseException\<close> only, every other class derives from \<open>Exception\<close>.
\<close>

datatype py_exception =
    NotImplementedError string
  | ValueError string
  | IndexError string
  | UsageError string
  | AssertionError
  | ModuleNotFoundError string
  | OSError string
  | KeyboardInterrupt
  | SystemExit

fun is_Exception :: "py_exception \<Rightarrow> bool" where
  "is_Exception KeyboardInterrupt = False"
| "is_Exception SystemExit = False"
| "is_Exception _ = True"

fun is_ValueError :: "py_exception \<Rightarrow> bool" where
  "is_ValueError (ValueError _) = True"
| "is_ValueError _ = False"

definition raise :: "py_exception \<Rightarrow> py_exception + 'a" where
  "raise e = Inl e"

text \<open>Sequencing of two statements: the second runs only when the first returns.\<close>

definition then_do :: "py_exception + 'a \<Rightarrow> ('a \<Rightarrow> py_exception + 'b) \<Rightarrow> py_exception + 'b" where
  "then_do r f = (case r of Inl e \<Rightarrow> Inl e | Inr v \<Rightarrow> f v)"

definition raises :: "py_exception + 'a \<Rightarrow> bool" where
  "raises r = (case r of Inl e \<Rightarrow> True | Inr v \<Rightarrow> False)"

definition raises_ValueError :: "py_exception + 'a \<Rightarrow> bool" where
  "raises_ValueError r = (case r of Inl e \<Rightarrow> is_ValueError e | Inr v \<Rightarrow> False)"

section \<open>numpy arrays\<close>

text \<open>
  An \<open>ndarray\<close> is its shape and its elements in row-major (C) order. A well-formed
  array holds as many elements as its shape says.
\<close>

datatype 'a ndarray = NDArray (shape: "nat list") (flat: "'a list")

definition ndim :: "'a ndarray \<Rightarrow> nat" where
  "ndim a = length (shape a)"

definition size_nd :: "'a ndarray \<Rightarrow> nat" where
  "size_nd a = prod_list (shape a)"

definition wf_ndarray :: "'a ndarray \<Rightarrow> bool" where
  "wf_ndarray a = (length (flat a) = prod_list (shape a))"

text \<open>\<open>arr.reshape(s)\<close>: numpy raises ValueError when the sizes differ.\<close>

definition reshape :: "nat list \<Rightarrow> 'a ndarray \<Rightarrow> py_exception + 'a ndarray" where
  "reshape s a =
     (if size_nd a = prod_list s then Inr (NDArray s (flat a))
      else raise (ValueError ''cannot reshape array''))"

text \<open>\<open>arr * c\<close> with a scalar \<open>c\<close>: elementwise, same shape.\<close>

definition times_scalar :: "'a::times ndarray \<Rightarrow> 'a \<Rightarrow> 'a ndarray" where
  "times_scalar a c = NDArray (shape a) (map (\<lambda>x. x * c) (flat a))"

text \<open>The \<open>n\<close> consecutive blocks of \<open>r\<close> elements: the sub-arrays along axis 0.\<close>

definition blocks :: "nat \<Rightarrow> nat \<Rightarrow> 'a list \<Rightarrow> 'a list list" where
  "blocks n r xs = map (\<lambda>i. take r (drop (i * r) xs)) [0..<n]"

text \<open>
  \<open>np.flipud(m)\<close> is \<open>m[::-1, ...]\<close>: the sub-arrays along axis 0 in reverse order;
  numpy raises ValueError on a 0-dimensional input.
\<close>

definition flipud :: "'a ndarray \<Rightarrow> py_exception + 'a ndarray" where
  "flipud a =
     (case shape a of
        [] \<Rightarrow> raise (ValueError ''Input must be >= 1-d.'')
      | n # rest \<Rightarrow> Inr (NDArray (n # rest) (concat (rev (blocks n (prod_list rest) (flat a))))))"

section \<open>The helper functions of the notebook\<close>

text \<open>
  \<^verbatim>\<open>
  def plot_image(img, reshape_size=None, cmap="binary", ax=None, title=None):
    raise NotImplementedError("TODO")
    return ax
  \<close>
\<close>

definition plot_image ::
  "'a ndarray \<Rightarrow> nat list option \<Rightarrow> string \<Rightarrow> 'ax option \<Rightarrow> string option \<Rightarrow> py_exception + 'ax option" where
  "plot_image img reshape_size cmap ax title =
     then_do (raise (NotImplementedError ''TODO'') :: py_exception + unit) (\<lambda>_. Inr ax)"

text \<open>
  \<^verbatim>\<open>
  def im_reshape_bw(arr):
    out_img = arr.reshape(28,28)*255
    out_img = np.flipud(out_img)
    return out_img
  \<close>
  The notebook passes float images. The model is polymorphic in the element type and
  multiplies in that type.
\<close>

definition im_reshape_bw :: "'a::comm_semiring_1 ndarray \<Rightarrow> py_exception + 'a ndarray" where
  "im_reshape_bw arr =
     then_do (reshape [28, 28] arr) (\<lambda>r.
     let out_img = times_scalar r 255 in
     then_do (flipud out_img) (\<lambda>out_img.
     Inr out_img))"

text \<open>
  Indexing \<open>xs[i]\<close> of a Python list or along the first axis of an array: a negative
  index counts from the end, an index out of range raises IndexError.
\<close>

definition py_index :: "'a list \<Rightarrow> int \<Rightarrow> py_exception + 'a" where
  "py_index xs i =
     (let n = int (length xs); k = (if i < 0 then n + i else i)
      in if 0 \<le> k \<and> k < n then Inr (xs ! nat k) else raise (IndexError ''index out of range''))"

subsection \<open>Colouring an image\<close>

text \<open>
  \<open>mpl.cm.tab10(label)\<close> belongs to matplotlib: for a scalar label it returns one RGBA
  tuple of four floats. The colormap is a parameter \<open>cm_tab10\<close> of the functions that
  call it. Floats are idealised as reals.
\<close>

type_synonym rgba = "real \<times> real \<times> real \<times> real"

definition opaque_black :: "int \<Rightarrow> rgba" where
  "opaque_black label = (0, 0, 0, 1)"

text \<open>
  \<open>arr[..., np.newaxis] * np.array(color)\<close>: broadcasting gives every element its four
  channel products along a new last axis of length 4. This is \<open>arr[:, np.newaxis]\<close> for
  a 1-dimensional and \<open>arr[:, :, np.newaxis]\<close> for a 2-dimensional \<open>arr\<close>.
\<close>

definition times_color :: "real ndarray \<Rightarrow> rgba \<Rightarrow> real ndarray" where
  "times_color a color =
     (case color of (r, g, b, al) \<Rightarrow>
        NDArray (shape a @ [4]) (concat (map (\<lambda>x. [x * r, x * g, x * b, x * al]) (flat a))))"

text \<open>
  \<open>astype(np.uint8)\<close>: the C conversion drops the fraction; values outside 0..255 are
  taken modulo 256 here (the notebook's pixels lie in range).
\<close>

definition uint8_of_real :: "real \<Rightarrow> 8 word" where
  "uint8_of_real x = word_of_int (if 0 \<le> x then \<lfloor>x\<rfloor> else \<lceil>x\<rceil>)"

definition astype_uint8 :: "real ndarray \<Rightarrow> 8 word ndarray" where
  "astype_uint8 a = NDArray (shape a) (map uint8_of_real (flat a))"

text \<open>\<open>np.squeeze\<close> drops the axes of length 1.\<close>

definition squeeze :: "'a ndarray \<Rightarrow> 'a ndarray" where
  "squeeze a = NDArray (filter (\<lambda>d. d \<noteq> 1) (shape a)) (flat a)"

text \<open>Four consecutive bytes read as one little-endian 32-bit value.\<close>

fun uint32_of_bytes :: "8 word list \<Rightarrow> 32 word" where
  "uint32_of_bytes [] = 0"
| "uint32_of_bytes (b # bs) = ucast b OR push_bit 8 (uint32_of_bytes bs)"

text \<open>
  \<open>a.view(np.uint32)\<close> on a \<open>uint8\<close> array reinterprets the bytes of the last axis,
  whose length must be a multiple of 4 and becomes a quarter of it; numpy raises
  ValueError otherwise, and on a 0-dimensional array.
\<close>

definition view_uint32 :: "8 word ndarray \<Rightarrow> py_exception + 32 word ndarray" where
  "view_uint32 a =
     (if shape a = [] then
        raise (ValueError ''Changing the dtype of a 0d array is only supported if the itemsize is unchanged'')
      else if last (shape a) mod 4 \<noteq> 0 then
        raise (ValueError ''When changing to a larger dtype, its size must be a divisor of the total size in bytes of the last axis of the array.'')
      else Inr (NDArray (butlast (shape a) @ [last (shape a) div 4])
                  (map uint32_of_bytes (blocks (length (flat a) div 4) 4 (flat a)))))"

text \<open>
  \<^verbatim>\<open>
  def im_colorize_rgba(arr, label):
    color = mpl.cm.tab10(label)
    if arr.ndim == 1:
      out_img = (arr[:, np.newaxis] * np.array(color)).reshape(28,28,4) * 255
    elif arr.ndim == 2:
      out_img = (arr[:, :, np.newaxis] * np.array(color)) * 255
    else:
      raise ValueError("Image format not handled (yet).")
    out_img = np.flipud(out_img)
    return np.squeeze(out_img.astype(np.uint8)).view(np.uint32)
  \<close>
\<close>

definition im_colorize_rgba ::
  "(int \<Rightarrow> rgba) \<Rightarrow> real ndarray \<Rightarrow> int \<Rightarrow> py_exception + 32 word ndarray" where
  "im_colorize_rgba cm_tab10 arr label =
     (let color = cm_tab10 label in
      then_do
        (if ndim arr = 1 then
           then_do (reshape [28, 28, 4] (times_color arr color)) (\<lambda>r. Inr (times_scalar r 255))
         else if ndim arr = 2 then
           Inr (times_scalar (times_color arr color) 255)
         else raise (ValueError ''Image format not handled (yet).''))
        (\<lambda>out_img.
      then_do (flipud out_img) (\<lambda>out_img.
      view_uint32 (squeeze (astype_uint8 out_img)))))"

subsection \<open>The cells that call \<open>plot_image\<close> and select the TensorFlow version\<close>

definition class_names :: "string list" where
  "class_names = [''T-shirt/top'', ''Trouser'', ''Pullover'', ''Dress'', ''Coat'',
                  ''Sandal'', ''Shirt'', ''Sneaker'', ''Bag'', ''Ankle boot'']"

text \<open>
  \<^verbatim>\<open>
  plot_image(X_train[0], reshape_size=None, cmap="binary", ax=None,
             title=class_names[y_train[0]]);
  \<close>
  The arguments are evaluated from left to right before the call.
\<close>

definition cell_plot_first ::
  "'a ndarray list \<Rightarrow> int list \<Rightarrow> py_exception + unit" where
  "cell_plot_first X_train y_train =
     then_do (py_index X_train 0) (\<lambda>img.
     then_do (py_index y_train 0) (\<lambda>c.
     then_do (py_index class_names c) (\<lambda>t.
     then_do (plot_image img None ''binary'' (None :: unit option) (Some t)) (\<lambda>_.
     Inr ()))))"

text \<open>
  \<open>try: body except Exception: pass\<close>: an exception of a class deriving from
  \<open>Exception\<close> is dropped and execution continues; any other one propagates.
\<close>

definition try_except_Exception_pass :: "py_exception + unit \<Rightarrow> py_exception + unit" where
  "try_except_Exception_pass body =
     (case body of
        Inl e \<Rightarrow> if is_Exception e then Inr () else Inl e
      | Inr u \<Rightarrow> Inr ())"

text \<open>
  \<^verbatim>\<open>
  try:
      # %tensorflow_version only exists in Colab.
      %tensorflow_version 2.x
  except Exception:
      pass

  import tensorflow as tf
  assert tf.__version__ >= "2.0"

  from tensorflow import keras
  \<close>
  The outcome of the line magic, of importing tensorflow (its version string) and of
  importing keras belong to the environment and are parameters. Python compares the
  version strings lexicographically.
\<close>

definition cell_tensorflow_version ::
  "py_exception + unit \<Rightarrow> py_exception + string \<Rightarrow> py_exception + unit \<Rightarrow> py_exception + unit" where
  "cell_tensorflow_version magic import_tensorflow import_keras =
     then_do (try_except_Exception_pass magic) (\<lambda>_.
     then_do import_tensorflow (\<lambda>version.
     then_do (if version \<ge> ''2.0'' then Inr () else raise AssertionError) (\<lambda>_.
     import_keras)))"

subsection \<open>Rescaling and plotting an embedding\<close>

text \<open>
  A float64 value of numpy: a finite number, an infinity or \<open>nan\<close>. Zero is kept
  without its sign.
\<close>

datatype npfloat = Finite real | PosInf | NegInf | NaN

text \<open>
  An arithmetic operation on finite floats rounds its exact result to a float. The
  rounding function \<open>rnd\<close> is a parameter of the operations; the one of float64
  arithmetic is \<open>round_float64\<close> below. What the proofs use of a rounding is that it is
  monotone and leaves 0 and 1 as they are. A rounded result beyond the largest float
  \<open>(2^53 - 1) * 2^971\<close> overflows to an infinity.
\<close>

definition rounding :: "(real \<Rightarrow> real) \<Rightarrow> bool" where
  "rounding rnd = (mono rnd \<and> rnd 0 = 0 \<and> rnd 1 = 1)"

text \<open>
  The rounding of float64 arithmetic, IEEE 754 round-to-nearest with ties to even: a
  float is an integer of at most 53 bits times a power of two, the power being
  \<open>2^(e - 52)\<close> in the binade \<open>2^e \<le> |x| < 2^(e + 1)\<close> and \<open>2^(-1074)\<close> below
  \<open>2^(-1022)\<close>. The exponent is not bounded above: overflow is decided afterwards.
\<close>

definition round_half_even :: "real \<Rightarrow> int" where
  "round_half_even x =
     (let f = \<lfloor>x\<rfloor>
      in if x - of_int f < 1 / 2 then f
         else if 1 / 2 < x - of_int f then f + 1
         else if even f then f else f + 1)"

definition float64_exponent :: "real \<Rightarrow> int" where
  "float64_exponent x = max \<lfloor>log 2 \<bar>x\<bar>\<rfloor> (- 1022)"

definition float64_ulp :: "real \<Rightarrow> real" where
  "float64_ulp x = 2 powr (of_int (float64_exponent x) - 52)"

definition round_float64 :: "real \<Rightarrow> real" where
  "round_float64 x = of_int (round_half_even (x / float64_ulp x)) * float64_ulp x"

definition max_float :: real where
  "max_float = (2 ^ 53 - 1) * 2 ^ 971"

definition overflow :: "real \<Rightarrow> npfloat" where
  "overflow r = (if max_float < r then PosInf else if r < - max_float then NegInf else Finite r)"

text \<open>Subtraction of floats; \<open>inf - inf\<close> is \<open>nan\<close>, and \<open>nan\<close> propagates.\<close>

fun fsub :: "(real \<Rightarrow> real) \<Rightarrow> npfloat \<Rightarrow> npfloat \<Rightarrow> npfloat" where
  "fsub rnd NaN b = NaN"
| "fsub rnd a NaN = NaN"
| "fsub rnd (Finite a) (Finite b) = overflow (rnd (a - b))"
| "fsub rnd (Finite a) PosInf = NegInf"
| "fsub rnd (Finite a) NegInf = PosInf"
| "fsub rnd PosInf PosInf = NaN"
| "fsub rnd PosInf b = PosInf"
| "fsub rnd NegInf NegInf = NaN"
| "fsub rnd NegInf b = NegInf"

text \<open>
  numpy divides floats without raising (it warns): a finite number divided by zero is
  \<open>nan\<close> for \<open>0/0\<close> and an infinity otherwise, \<open>inf / inf\<close> is \<open>nan\<close>, and a
  finite number divided by an infinity is zero.
\<close>

fun true_divide :: "(real \<Rightarrow> real) \<Rightarrow> npfloat \<Rightarrow> npfloat \<Rightarrow> npfloat" where
  "true_divide rnd NaN b = NaN"
| "true_divide rnd a NaN = NaN"
| "true_divide rnd (Finite a) (Finite b) =
     (if b = 0 then (if a = 0 then NaN else if 0 < a then PosInf else NegInf)
      else overflow (rnd (a / b)))"
| "true_divide rnd (Finite a) PosInf = Finite 0"
| "true_divide rnd (Finite a) NegInf = Finite 0"
| "true_divide rnd PosInf (Finite b) = (if 0 \<le> b then PosInf else NegInf)"
| "true_divide rnd NegInf (Finite b) = (if 0 \<le> b then NegInf else PosInf)"
| "true_divide rnd PosInf b = NaN"
| "true_divide rnd NegInf b = NaN"

fun in_unit_interval :: "npfloat \<Rightarrow> bool" where
  "in_unit_interval (Finite a) = (0 \<le> a \<and> a \<le> 1)"
| "in_unit_interval _ = False"

text \<open>The order of floats, and numpy's minimum and maximum, which propagate \<open>nan\<close>.\<close>

fun float_le :: "npfloat \<Rightarrow> npfloat \<Rightarrow> bool" where
  "float_le NaN b = False"
| "float_le a NaN = False"
| "float_le NegInf b = True"
| "float_le a PosInf = True"
| "float_le (Finite a) (Finite b) = (a \<le> b)"
| "float_le a b = False"

definition np_minimum :: "npfloat \<Rightarrow> npfloat \<Rightarrow> npfloat" where
  "np_minimum a b = (if a = NaN \<or> b = NaN then NaN else if float_le a b then a else b)"

definition np_maximum :: "npfloat \<Rightarrow> npfloat \<Rightarrow> npfloat" where
  "np_maximum a b = (if a = NaN \<or> b = NaN then NaN else if float_le a b then b else a)"

text \<open>
  The embedding \<open>X2d\<close> is an array of \<open>n\<close> rows and two columns: a list of rows.
  \<open>np.min(X2d, 0)\<close> and \<open>np.max(X2d, 0)\<close> reduce along axis 0, one value per column,
  and raise ValueError on an array without rows.
\<close>

definition amin_axis0 :: "(npfloat \<times> npfloat) list \<Rightarrow> py_exception + npfloat \<times> npfloat" where
  "amin_axis0 X =
     (case X of
        [] \<Rightarrow> raise (ValueError ''zero-size array to reduction operation minimum which has no identity'')
      | r # rs \<Rightarrow> Inr (fold np_minimum (map fst rs) (fst r), fold np_minimum (map snd rs) (snd r)))"

definition amax_axis0 :: "(npfloat \<times> npfloat) list \<Rightarrow> py_exception + npfloat \<times> npfloat" where
  "amax_axis0 X =
     (case X of
        [] \<Rightarrow> raise (ValueError ''zero-size array to reduction operation maximum which has no identity'')
      | r # rs \<Rightarrow> Inr (fold np_maximum (map fst rs) (fst r), fold np_maximum (map snd rs) (snd r)))"

text \<open>\<open>(X2d - x_min) / (x_max - x_min)\<close>, the row vectors broadcast over the rows.\<close>

definition rescale ::
  "(real \<Rightarrow> real) \<Rightarrow> npfloat \<times> npfloat \<Rightarrow> npfloat \<times> npfloat \<Rightarrow> (npfloat \<times> npfloat) list
     \<Rightarrow> (npfloat \<times> npfloat) list" where
  "rescale rnd x_min x_max X2d =
     map (\<lambda>p. (true_divide rnd (fsub rnd (fst p) (fst x_min)) (fsub rnd (fst x_max) (fst x_min)),
                true_divide rnd (fsub rnd (snd p) (snd x_min)) (fsub rnd (snd x_max) (snd x_min)))) X2d"

text \<open>\<open>str\<close> of an integer: its decimal digits.\<close>

fun str_nat :: "nat \<Rightarrow> string" where
  "str_nat n = (if n < 10 then [char_of (48 + n)] else str_nat (n div 10) @ [char_of (48 + n mod 10)])"

declare str_nat.simps [simp del]

definition str_int :: "int \<Rightarrow> string" where
  "str_int i = (if i < 0 then CHR ''-'' # str_nat (nat (- i)) else str_nat (nat i))"

text \<open>What the function draws on the current figure.\<close>

record plt_text =
  text_x :: npfloat
  text_y :: npfloat
  text_s :: string
  text_color :: rgba

record figure =
  texts :: "plt_text list"
  ticks_removed :: bool
  fig_title :: "string option"

text \<open>
  The loop \<open>for i in range(X.shape[0]): plt.text(X[i, 0], X[i, 1], str(y[i]), ...)\<close>:
  \<open>y[i]\<close> raises IndexError when \<open>y\<close> is shorter than \<open>X\<close>.
\<close>

fun text_loop :: "(int \<Rightarrow> rgba) \<Rightarrow> (npfloat \<times> npfloat) list \<Rightarrow> int list \<Rightarrow> py_exception + plt_text list" where
  "text_loop cm_tab10 [] y = Inr []"
| "text_loop cm_tab10 (p # ps) [] = raise (IndexError ''index out of bounds'')"
| "text_loop cm_tab10 (p # ps) (l # ls) =
     then_do (text_loop cm_tab10 ps ls) (\<lambda>rest.
     Inr (\<lparr>text_x = fst p, text_y = snd p, text_s = str_int l, text_color = cm_tab10 l\<rparr> # rest))"

text \<open>
  \<^verbatim>\<open>
  def plot_digits_embedding(X2d, y, title=None, remove_ticks=True):
    x_min, x_max = np.min(X2d, 0), np.max(X2d, 0)
    X = (X2d - x_min) / (x_max - x_min)

    plt.figure(figsize=(20,10))
    ax = plt.subplot(111)
    for i in range(X.shape[0]):
      plt.text(X[i, 0], X[i, 1], str(y[i]),
                  color=plt.cm.tab10(y[i]),
                  fontdict={'weight': 'bold', 'size': 9})

    if remove_ticks:
      plt.xticks([]), plt.yticks([])
    if title is not None:
      plt.title(title)
  \<close>
\<close>

definition plot_digits_embedding ::
  "(real \<Rightarrow> real) \<Rightarrow> (int \<Rightarrow> rgba) \<Rightarrow> (npfloat \<times> npfloat) list \<Rightarrow> int list \<Rightarrow> string option \<Rightarrow> bool
     \<Rightarrow> py_exception + figure" where
  "plot_digits_embedding rnd cm_tab10 X2d y title remove_ticks =
     then_do (amin_axis0 X2d) (\<lambda>x_min.
     then_do (amax_axis0 X2d) (\<lambda>x_max.
     let X = rescale rnd x_min x_max X2d in
     then_do (text_loop cm_tab10 X y) (\<lambda>ts.
     Inr \<lparr>texts = ts, ticks_removed = remove_ticks, fig_title = title\<rparr>)))"

text \<open>
  For stating properties of an embedding of finite numbers: its rows as floats, its
  columns, and the float value of \<open>(a - lo) / (hi - lo)\<close>.
\<close>

definition finite_rows :: "(real \<times> real) list \<Rightarrow> (npfloat \<times> npfloat) list" where
  "finite_rows R = map (\<lambda>p. (Finite (fst p), Finite (snd p))) R"

definition column0 :: "(real \<times> real) list \<Rightarrow> real set" where
  "column0 R = fst ` set R"

definition column1 :: "(real \<times> real) list \<Rightarrow> real set" where
  "column1 R = snd ` set R"

definition scaled :: "(real \<Rightarrow> real) \<Rightarrow> real \<Rightarrow> real \<Rightarrow> real \<Rightarrow> real" where
  "scaled rnd lo hi a = rnd (rnd (a - lo) / rnd (hi - lo))"

subsection \<open>The interactive plot\<close>

text \<open>
  A list comprehension \<open>[f(x) for x in xs]\<close> whose body may raise: the first exception
  ends it.
\<close>

fun comprehension :: "('a \<Rightarrow> py_exception + 'b) \<Rightarrow> 'a list \<Rightarrow> py_exception + 'b list" where
  "comprehension f [] = Inr []"
| "comprehension f (x # xs) =
     then_do (f x) (\<lambda>v.
     then_do (comprehension f xs) (\<lambda>vs.
     Inr (v # vs)))"

text \<open>
  \<open>"%02x" % n\<close>: lower-case hexadecimal digits after the sign, padded with zeros to two
  characters; \<open>int(r)\<close> drops the fraction of a float.
\<close>

fun hex_nat :: "nat \<Rightarrow> string" where
  "hex_nat n =
     (let d = n mod 16; c = (if d < 10 then char_of (48 + d) else char_of (87 + d))
      in if n < 16 then [c] else hex_nat (n div 16) @ [c])"

declare hex_nat.simps [simp del]

definition format_02x :: "int \<Rightarrow> string" where
  "format_02x n =
     (let sign = (if n < 0 then ''-'' else []); digits = hex_nat (nat \<bar>n\<bar>)
      in sign @ replicate (2 - length sign - length digits) CHR ''0'' @ digits)"

definition int_of_float :: "real \<Rightarrow> int" where
  "int_of_float r = (if 0 \<le> r then \<lfloor>r\<rfloor> else \<lceil>r\<rceil>)"

definition hex_color :: "rgba \<Rightarrow> string" where
  "hex_color color =
     (case color of (r, g, b, al) \<Rightarrow>
        ''#'' @ format_02x (int_of_float (255 * r)) @ format_02x (int_of_float (255 * g))
              @ format_02x (int_of_float (255 * b)))"

text \<open>The columns handed to bokeh's \<open>ColumnDataSource\<close>.\<close>

record bokeh_data =
  x1 :: "npfloat list"
  x2 :: "npfloat list"
  colors :: "string list"
  images :: "real ndarray list"
  images_rgba :: "32 word ndarray list"
  labels :: "string list"

text \<open>
  \<^verbatim>\<open>
  def plot_interactive_embedding(X, y, X_img, title=None):
    bokeh_data = ColumnDataSource(
            data=dict(
                x1 = X[:,0],
                x2 = X[:,1],
                colors = ["#%02x%02x%02x" % (int(r), int(g), int(b)) for r, g, b, _ in
                          255*mpl.cm.tab10(y)],
                images = [im_reshape_bw(xi) for xi in X_img],
                images_rgba = [im_colorize_rgba(xi, yi) for xi, yi in zip(X_img, y)],
                labels = [str(yi) for yi in y]
            )
        )
    hover_tsne = HoverTool(tooltips='@labels')
    tools_tsne = [hover_tsne, 'pan', 'wheel_zoom', 'reset']
    plot_tsne = figure(plot_width=600, plot_height=600, tools=tools_tsne, title=title)

    plot_tsne.circle("x1", "x2", size=4, fill_color="colors", line_width=0, source=bokeh_data)

    return plot_tsne
  \<close>
  The calls into bokeh (\<open>ColumnDataSource\<close>, \<open>HoverTool\<close>, \<open>figure\<close>, \<open>circle\<close>) are
  the parameter \<open>bokeh_plot\<close>, from the columns and the title to the plot or to the
  exception bokeh raises. \<open>X_img\<close> is the list of the images along its first axis.
\<close>

definition plot_interactive_embedding ::
  "(int \<Rightarrow> rgba) \<Rightarrow> (bokeh_data \<Rightarrow> string option \<Rightarrow> py_exception + 'plot)
     \<Rightarrow> (npfloat \<times> npfloat) list \<Rightarrow> int list \<Rightarrow> real ndarray list \<Rightarrow> string option
     \<Rightarrow> py_exception + 'plot" where
  "plot_interactive_embedding cm_tab10 bokeh_plot X y X_img title =
     (let x1 = map fst X;
          x2 = map snd X;
          colors = map (\<lambda>yi. hex_color (cm_tab10 yi)) y
      in
      then_do (comprehension im_reshape_bw X_img) (\<lambda>images.
      then_do (comprehension (\<lambda>xy. im_colorize_rgba cm_tab10 (fst xy) (snd xy)) (zip X_img y)) (\<lambda>images_rgba.
      let labels = map str_int y in
      bokeh_plot \<lparr>x1 = x1, x2 = x2, colors = colors, images = images,
                  images_rgba = images_rgba, labels = labels\<rparr> title)))"

subsection \<open>The cells that keep the convolutional model in a file\<close>

text \<open>
  The working directory maps file names to contents. A file written by
  \<open>model.save\<close> holds the model; \<open>keras.utils.plot_model\<close> writes a picture.
  The type \<open>'m\<close> of keras models, the model \<open>fresh\<close> that the \<open>else\<close> branch builds and
  the training \<open>fit\<close> (\<open>model.compile\<close> and \<open>model.fit\<close>) belong to keras and are parameters.
\<close>

datatype 'm stored = SavedModel 'm | ModelPlot

type_synonym 'm directory = "string \<rightharpoonup> 'm stored"

definition convmodel_file :: string where
  "convmodel_file = ''convnet.h5''"

definition path_exists :: "'m directory \<Rightarrow> string \<Rightarrow> bool" where
  "path_exists dir name = (dir name \<noteq> None)"

definition load_model :: "'m directory \<Rightarrow> string \<Rightarrow> py_exception + 'm" where
  "load_model dir name =
     (case dir name of
        Some (SavedModel m) \<Rightarrow> Inr m
      | _ \<Rightarrow> raise (OSError ''Unable to open file''))"

text \<open>
  \<^verbatim>\<open>
  convmodel_file = "convnet.h5"

  if os.path.exists(convmodel_file):
    model = keras.models.load_model(convmodel_file)
    trained = True
  else:
    ...
    model = keras.models.Sequential([feature_extractor, classifier])
    trained = False
  \<close>
  The cell defines the variables \<open>model\<close> and \<open>trained\<close>.
\<close>

definition cell_convnet :: "'m \<Rightarrow> 'm directory \<Rightarrow> py_exception + 'm \<times> bool" where
  "cell_convnet fresh dir =
     (if path_exists dir convmodel_file then
        then_do (load_model dir convmodel_file) (\<lambda>model. Inr (model, True))
      else Inr (fresh, False))"

text \<open>
  \<^verbatim>\<open>
  if not trained:
    model.compile(loss="sparse_categorical_crossentropy", optimizer="nadam", metrics=["accuracy"])
    history = model.fit(X_train_c[:10000], y_train[:10000], epochs=10, validation_data=(X_valid_c, y_valid))
    model.save(convmodel_file)
  score = model.evaluate(X_test_c, y_test)
  ...
  \<close>
  The cell returns the directory and the model it leaves behind.
\<close>

definition cell_train :: "('m \<Rightarrow> 'm) \<Rightarrow> 'm directory \<Rightarrow> 'm \<times> bool \<Rightarrow> 'm directory \<times> 'm" where
  "cell_train fit dir vars =
     (case vars of (model, trained) \<Rightarrow>
        if \<not> trained then
          let model = fit model in (dir(convmodel_file \<mapsto> SavedModel model), model)
        else (dir, model))"

text \<open>\<open>keras.utils.plot_model(model_fc, "my_mnist_model.png", show_shapes=True)\<close>\<close>

definition cell_plot_model :: "'m directory \<Rightarrow> 'm directory" where
  "cell_plot_model dir = dir(''my_mnist_model.png'' \<mapsto> ModelPlot)"

text \<open>Running the two convolutional-model cells one after the other.\<close>

definition run_convnet_cells ::
  "'m \<Rightarrow> ('m \<Rightarrow> 'm) \<Rightarrow> 'm directory \<Rightarrow> py_exception + ('m directory \<times> 'm) \<times> bool" where
  "run_convnet_cells fresh fit dir =
     then_do (cell_convnet fresh dir) (\<lambda>vars. Inr (cell_train fit dir vars, snd vars))"

subsection \<open>The hashing trick\<close>

text \<open>
  The exposition of the notebook defines the hashed feature map with two hash functions
  \<open>h\<close> into the buckets \<open>1, ..., m\<close> and \<open>\<xi>\<close> into the signs:
  \<open>\<phi>\<^sub>i(x) = \<Sum>\<^bsub>j: h(j) = i\<^esub> \<xi>(j) x\<^sub>j\<close>. A sample \<open>x\<close> is a Python dict from feature names
  to values, kept as the list of its items.
\<close>

definition phi :: "(string \<Rightarrow> nat) \<Rightarrow> (string \<Rightarrow> real) \<Rightarrow> nat \<Rightarrow> (string \<times> real) list \<Rightarrow> real list" where
  "phi h \<xi> m x =
     map (\<lambda>i. sum_list (map (\<lambda>jx. \<xi> (fst jx) * snd jx) (filter (\<lambda>jx. h (fst jx) = i) x)))
         [1..<Suc m]"

text \<open>
  \<open>FeatureHasher\<close> is scikit-learn's implementation of this map; its hash functions
  are parameters here. \<open>transform\<close> maps every sample to one row of a sparse matrix
  with \<open>n_features\<close> columns, and \<open>toarray\<close> gives the dense array.
\<close>

record FeatureHasher =
  n_features :: nat

record sparse_matrix =
  n_rows :: nat
  n_cols :: nat
  rows :: "real list list"

definition transform ::
  "(string \<Rightarrow> nat) \<Rightarrow> (string \<Rightarrow> real) \<Rightarrow> FeatureHasher \<Rightarrow> (string \<times> real) list list \<Rightarrow> sparse_matrix" where
  "transform h \<xi> hasher raw_X =
     \<lparr>n_rows = length raw_X, n_cols = n_features hasher,
      rows = map (phi h \<xi> (n_features hasher)) raw_X\<rparr>"

definition toarray :: "sparse_matrix \<Rightarrow> real ndarray" where
  "toarray f = NDArray [n_rows f, n_cols f] (concat (rows f))"

text \<open>
  \<^verbatim>\<open>
  h = FeatureHasher(n_features=10, )
  D = [{'dog': 1, 'cat':2, 'elephant':4},{'dog': 2, 'run': 5}]
  f = h.transform(D)
  f.toarray()
  \<close>
\<close>

definition D :: "(string \<times> real) list list" where
  "D = [[(''dog'', 1), (''cat'', 2), (''elephant'', 4)], [(''dog'', 2), (''run'', 5)]]"

definition hashing_cell :: "(string \<Rightarrow> nat) \<Rightarrow> (string \<Rightarrow> real) \<Rightarrow> real ndarray" where
  "hashing_cell hash sign =
     (let h = \<lparr>n_features = 10\<rparr>;
          f = transform hash sign h D
      in toarray f)"

section \<open>Lemmas on blocks and flips\<close>

lemma length_blocks [simp]: "length (blocks n r xs) = n"
  by (simp add: blocks_def)

lemma nth_blocks: "i < n \<Longrightarrow> blocks n r xs ! i = take r (drop (i * r) xs)"
  by (simp add: blocks_def)

lemma length_block:
  "length xs = n * r \<Longrightarrow> b \<in> set (blocks n r xs) \<Longrightarrow> length b = r"
proof -
  assume len: "length xs = n * r" and b: "b \<in> set (blocks n r xs)"
  from b obtain i where i: "i < n" and bi: "b = take r (drop (i * r) xs)"
    by (auto simp: blocks_def)
  from i have "Suc i \<le> n" by simp
  then have "Suc i * r \<le> n * r" by (rule mult_le_mono1)
  then have "r \<le> n * r - i * r" by simp
  with len bi show "length b = r" by simp
qed

lemma nth_concat_uniform:
  "\<forall>b \<in> set xss. length b = r \<Longrightarrow> i < length xss \<Longrightarrow> j < r \<Longrightarrow>
   concat xss ! (i * r + j) = xss ! i ! j"
proof (induction xss arbitrary: i)
  case Nil
  then show ?case by simp
next
  case (Cons b xss)
  show ?case
  proof (cases i)
    case 0
    with Cons.prems show ?thesis by (simp add: nth_append)
  next
    case (Suc k)
    with Cons.prems have "concat xss ! (k * r + j) = xss ! k ! j"
      by (intro Cons.IH) auto
    moreover have "Suc k * r + j = r + (k * r + j)" by simp
    ultimately show ?thesis using Cons.prems Suc
      by (simp add: nth_append del: mult_Suc)
  qed
qed

lemma length_concat_uniform:
  "\<forall>b \<in> set xss. length b = r \<Longrightarrow> length (concat xss) = length xss * r"
  by (induction xss) auto

lemma nth_flip_blocks:
  assumes len: "length xs = n * r" and i: "i < n" and j: "j < r"
  shows "concat (rev (blocks n r xs)) ! (i * r + j) = xs ! ((n - 1 - i) * r + j)"
proof -
  have uni: "\<forall>b \<in> set (rev (blocks n r xs)). length b = r"
    using length_block [OF len] by simp
  have "concat (rev (blocks n r xs)) ! (i * r + j) = rev (blocks n r xs) ! i ! j"
    using uni i j by (intro nth_concat_uniform) auto
  also have "rev (blocks n r xs) ! i = blocks n r xs ! (n - 1 - i)"
    using i by (simp add: rev_nth)
  also have "\<dots> = take r (drop ((n - 1 - i) * r) xs)"
    using i by (simp add: nth_blocks)
  also have "\<dots> ! j = xs ! ((n - 1 - i) * r + j)"
  proof -
    have "Suc (n - 1 - i) \<le> n" using i by simp
    then have "Suc (n - 1 - i) * r \<le> n * r" by (rule mult_le_mono1)
    then have "(n - 1 - i) * r + j < length xs" using j len by simp
    then show ?thesis using j by simp
  qed
  finally show ?thesis .
qed

subsection \<open>Colouring\<close>

lemma shape_times_color: "shape (times_color a c) = shape a @ [4]"
  by (cases c) (simp add: times_color_def)

lemma length_times_color: "length (flat (times_color a c)) = length (flat a) * 4"
proof (cases c)
  case (fields r g b al)
  have "length (concat (map (\<lambda>x. [x * r, x * g, x * b, x * al]) (flat a)))
          = length (map (\<lambda>x. [x * r, x * g, x * b, x * al]) (flat a)) * 4"
    by (rule length_concat_uniform) auto
  with fields show ?thesis by (simp add: times_color_def)
qed

lemma size_times_color: "size_nd (times_color a c) = size_nd a * 4"
  by (simp add: size_nd_def shape_times_color)

lemma view_after_squeeze:
  assumes "shape a = s @ [4]"
  shows "view_uint32 (squeeze (astype_uint8 a))
           = Inr (NDArray (filter (\<lambda>d. d \<noteq> 1) s @ [1])
                    (map uint32_of_bytes (blocks (length (flat a) div 4) 4 (map uint8_of_real (flat a)))))"
  using assms by (simp add: view_uint32_def squeeze_def astype_uint8_def)

lemma colorize_1d:
  assumes "ndim arr = 1"
  shows "im_colorize_rgba cm arr label =
     (if size_nd arr = 784 then
        Inr (NDArray [28, 28, 1]
          (map uint32_of_bytes (blocks (length (concat (rev (blocks 28 112 (map (\<lambda>x. x * 255) (flat (times_color arr (cm label))))))) div 4) 4
             (map uint8_of_real (concat (rev (blocks 28 112 (map (\<lambda>x. x * 255) (flat (times_color arr (cm label))))))))))) 
      else Inl (ValueError ''cannot reshape array''))"
proof (cases "size_nd arr = 784")
  case True
  let ?r = "times_scalar (NDArray [28, 28, 4] (flat (times_color arr (cm label)))) 255"
  have f: "flipud ?r = Inr (NDArray [28, 28, 4] (concat (rev (blocks 28 112 (flat ?r)))))"
    by (simp add: flipud_def times_scalar_def)
  have v: "view_uint32 (squeeze (astype_uint8 (NDArray [28, 28, 4] ys)))
          = Inr (NDArray [28, 28, 1] (map uint32_of_bytes (blocks (length ys div 4) 4 (map uint8_of_real ys))))" for ys
    using view_after_squeeze [of "NDArray [28, 28, 4] ys" "[28, 28]"] by simp
  show ?thesis
    using True assms f
    by (simp add: im_colorize_rgba_def Let_def then_do_def reshape_def size_times_color v times_scalar_def)
next
  case False
  then show ?thesis using assms
    by (simp add: im_colorize_rgba_def Let_def then_do_def reshape_def size_times_color raise_def)
qed

lemma colorize_2d:
  assumes "ndim arr = 2"
  shows "\<not> raises (im_colorize_rgba cm arr label)"
proof -
  from assms obtain h w where s: "shape arr = [h, w]"
    by (cases "shape arr"; cases "tl (shape arr)") (auto simp: ndim_def)
  let ?r = "times_scalar (times_color arr (cm label)) 255"
  have sh: "shape ?r = [h, w, 4]" by (simp add: times_scalar_def shape_times_color s)
  then obtain ys where f: "flipud ?r = Inr (NDArray [h, w, 4] ys)"
    by (simp add: flipud_def)
  have "shape (NDArray [h, w, 4] ys) = [h, w] @ [4]" by simp
  from view_after_squeeze [OF this] f show ?thesis using assms
    by (simp add: im_colorize_rgba_def Let_def then_do_def raises_def)
qed

lemma colorize_other:
  assumes "ndim arr \<noteq> 1" "ndim arr \<noteq> 2"
  shows "im_colorize_rgba cm arr label = Inl (ValueError ''Image format not handled (yet).'')"
  using assms by (simp add: im_colorize_rgba_def Let_def then_do_def raise_def)

lemma length_flip: 
  "length xs = n * r \<Longrightarrow> length (concat (rev (blocks n r xs))) = n * r"
  using length_concat_uniform [of "rev (blocks n r xs)" r] length_block [of xs n r]
  by simp

subsection \<open>The rounding of float64 is monotone\<close>

lemma rhe_of_int [simp]: "round_half_even (of_int n) = n"
  by (simp add: round_half_even_def)

lemma rhe_bounds: "\<lfloor>x\<rfloor> \<le> round_half_even x" "round_half_even x \<le> \<lfloor>x\<rfloor> + 1"
  by (simp_all add: round_half_even_def Let_def)

lemma rhe_mono: "x \<le> y \<Longrightarrow> round_half_even x \<le> round_half_even y"
proof -
  assume xy: "x \<le> y"
  then have fl: "\<lfloor>x\<rfloor> \<le> \<lfloor>y\<rfloor>" by (rule floor_mono)
  show ?thesis
  proof (cases "\<lfloor>x\<rfloor> = \<lfloor>y\<rfloor>")
    case True
    with xy show ?thesis by (auto simp: round_half_even_def Let_def)
  next
    case False
    with fl have "\<lfloor>x\<rfloor> + 1 \<le> \<lfloor>y\<rfloor>" by simp
    with rhe_bounds(2) [of x] rhe_bounds(1) [of y] show ?thesis by linarith
  qed
qed

lemma rhe_minus: "round_half_even (- x) = - round_half_even x"
proof (cases "x \<in> \<int>")
  case True
  then obtain n where n: "x = of_int n" by (rule Ints_cases)
  then have "- x = of_int (- n)" by simp
  then show ?thesis using n by (simp only: rhe_of_int)
next
  case False
  then have ne: "x \<noteq> of_int \<lfloor>x\<rfloor>" by (metis Ints_of_int)
  then have fl: "\<lfloor>- x\<rfloor> = - \<lfloor>x\<rfloor> - 1" by (simp add: floor_minus ceiling_altdef)
  have nz: "x - of_int \<lfloor>x\<rfloor> \<noteq> 0" using ne by simp
  show ?thesis
    using fl nz by (auto simp: round_half_even_def Let_def)
qed

lemma exponent_minus [simp]: "float64_exponent (- x) = float64_exponent x"
  by (simp add: float64_exponent_def)

lemma ulp_minus [simp]: "float64_ulp (- x) = float64_ulp x"
  by (simp add: float64_ulp_def)

lemma ulp_pos [simp]: "0 < float64_ulp x"
  by (simp add: float64_ulp_def)

lemma ulp_nonneg [simp]: "0 \<le> float64_ulp x"
  by (simp add: float64_ulp_def)

lemma rhe_0 [simp]: "round_half_even 0 = 0"
  by (simp add: round_half_even_def)

lemma round_float64_minus: "round_float64 (- x) = - round_float64 x"
  by (simp add: round_float64_def rhe_minus)

lemma round_float64_0 [simp]: "round_float64 0 = 0"
  by (simp add: round_float64_def round_half_even_def)

lemma round_float64_nonneg: "0 \<le> x \<Longrightarrow> 0 \<le> round_float64 x"
proof -
  assume "0 \<le> x"
  then have "0 \<le> x / float64_ulp x" by (intro divide_nonneg_pos ulp_pos)
  then have "round_half_even 0 \<le> round_half_even (x / float64_ulp x)" by (rule rhe_mono)
  then have "0 \<le> round_half_even (x / float64_ulp x)" by simp
  then show ?thesis unfolding round_float64_def by (intro mult_nonneg_nonneg) simp_all
qed

lemma exponent_mono: "0 < x \<Longrightarrow> x \<le> y \<Longrightarrow> float64_exponent x \<le> float64_exponent y"
  unfolding float64_exponent_def
  by (intro max.mono floor_mono) simp_all

text \<open>A positive number lies below the next power of two after its exponent.\<close>

lemma below_next_power: 
  assumes "0 < x" shows "x < 2 powr (of_int (float64_exponent x) + 1)"
proof -
  have "log 2 x < of_int \<lfloor>log 2 x\<rfloor> + 1" by linarith
  also have "\<dots> \<le> of_int (float64_exponent x) + 1"
    using assms by (simp add: float64_exponent_def)
  finally have "2 powr log 2 x < 2 powr (of_int (float64_exponent x) + 1)"
    by (simp add: powr_less_cancel_iff)
  then show ?thesis using assms by simp
qed

lemma above_power:
  assumes "0 < y" "- 1022 < float64_exponent y" shows "2 powr of_int (float64_exponent y) \<le> y"
proof -
  from assms(2) have "float64_exponent y = \<lfloor>log 2 y\<rfloor>"
    using assms(1) by (simp add: float64_exponent_def max_def split: if_splits)
  then have "of_int (float64_exponent y) \<le> log 2 y" by simp
  then have "2 powr of_int (float64_exponent y) \<le> 2 powr log 2 y"
    by (simp add: powr_le_cancel_iff)
  then show ?thesis using assms(1) by simp
qed

lemma round_float64_le_next:
  assumes "0 < x" shows "round_float64 x \<le> 2 powr (of_int (float64_exponent x) + 1)"
proof -
  let ?e = "float64_exponent x" and ?u = "float64_ulp x"
  have split: "(2::real) powr (of_int ?e + 1) = of_int (2 ^ 53) * ?u"
  proof -
    have "(2::real) powr (of_int ?e + 1) = 2 powr (53 + (of_int ?e - 52))" by (simp add: algebra_simps)
    also have "\<dots> = 2 powr 53 * 2 powr (of_int ?e - 52)" by (rule powr_add)
    also have "(2::real) powr 53 = 2 ^ 53" by (simp add: powr_numeral del: power_numeral)
    finally show ?thesis by (simp add: float64_ulp_def del: power_numeral)
  qed
  from below_next_power [OF assms] have "x / ?u \<le> of_int (2 ^ 53)"
    unfolding split by (simp add: pos_divide_le_eq del: power_numeral of_int_numeral of_int_power)
  then have "round_half_even (x / ?u) \<le> round_half_even (of_int (2 ^ 53))" by (rule rhe_mono)
  then have "round_half_even (x / ?u) \<le> 2 ^ 53" by (simp only: rhe_of_int)
  then have "of_int (round_half_even (x / ?u)) * ?u \<le> of_int (2 ^ 53) * ?u"
    by (intro mult_right_mono) (simp_all del: power_numeral)
  then show ?thesis unfolding split round_float64_def .
qed

lemma round_float64_ge_power:
  assumes "0 < y" "- 1022 < float64_exponent y"
  shows "2 powr of_int (float64_exponent y) \<le> round_float64 y"
proof -
  let ?e = "float64_exponent y" and ?u = "float64_ulp y"
  have split: "(2::real) powr of_int ?e = of_int (2 ^ 52) * ?u"
  proof -
    have "(2::real) powr of_int ?e = 2 powr (52 + (of_int ?e - 52))" by simp
    also have "\<dots> = 2 powr 52 * 2 powr (of_int ?e - 52)" by (rule powr_add)
    also have "(2::real) powr 52 = 2 ^ 52" by (simp add: powr_numeral del: power_numeral)
    finally show ?thesis by (simp add: float64_ulp_def del: power_numeral)
  qed
  from above_power [OF assms] have "of_int (2 ^ 52) \<le> y / ?u"
    unfolding split by (simp add: pos_le_divide_eq del: power_numeral of_int_numeral of_int_power)
  then have "round_half_even (of_int (2 ^ 52)) \<le> round_half_even (y / ?u)" by (rule rhe_mono)
  then have "2 ^ 52 \<le> round_half_even (y / ?u)" by (simp only: rhe_of_int)
  then have "of_int (2 ^ 52) * ?u \<le> of_int (round_half_even (y / ?u)) * ?u"
    by (intro mult_right_mono) (simp_all del: power_numeral)
  then show ?thesis unfolding split round_float64_def .
qed

lemma round_float64_mono_pos:
  assumes "0 < x" "x \<le> y" shows "round_float64 x \<le> round_float64 y"
proof (cases "float64_exponent x = float64_exponent y")
  case True
  then have u: "float64_ulp x = float64_ulp y" by (simp add: float64_ulp_def)
  have "x / float64_ulp y \<le> y / float64_ulp y" using assms(2) by (intro divide_right_mono) simp_all
  then have "round_half_even (x / float64_ulp y) \<le> round_half_even (y / float64_ulp y)"
    by (rule rhe_mono)
  then show ?thesis unfolding round_float64_def u by (intro mult_right_mono) simp_all
next
  case False
  with exponent_mono [OF assms] have lt: "float64_exponent x + 1 \<le> float64_exponent y" by simp
  have "- 1022 \<le> float64_exponent x" by (simp add: float64_exponent_def)
  with lt have big: "- 1022 < float64_exponent y" by simp
  have y: "0 < y" using assms by simp
  have "round_float64 x \<le> 2 powr (of_int (float64_exponent x) + 1)"
    using assms(1) by (rule round_float64_le_next)
  also have "\<dots> \<le> 2 powr of_int (float64_exponent y)"
  proof -
    from lt have "(of_int (float64_exponent x + 1) :: real) \<le> of_int (float64_exponent y)"
      by (simp only: of_int_le_iff)
    then have "(of_int (float64_exponent x) + 1 :: real) \<le> of_int (float64_exponent y)" by simp
    then show ?thesis by (intro powr_mono) simp_all
  qed
  also have "\<dots> \<le> round_float64 y" using y big by (rule round_float64_ge_power)
  finally show ?thesis .
qed

lemma round_float64_mono: "mono round_float64"
proof (rule monoI)
  fix x y :: real assume xy: "x \<le> y"
  consider "0 < x" | "x \<le> 0" "0 \<le> y" | "y < 0" using xy by linarith
  then show "round_float64 x \<le> round_float64 y"
  proof cases
    case 1
    then show ?thesis using xy by (rule round_float64_mono_pos)
  next
    case 2
    from 2(1) have "0 \<le> round_float64 (- x)" by (intro round_float64_nonneg) simp
    then have "round_float64 x \<le> 0" by (simp add: round_float64_minus)
    also have "0 \<le> round_float64 y" using 2(2) by (rule round_float64_nonneg)
    finally show ?thesis .
  next
    case 3
    then have "0 < - y" "- y \<le> - x" using xy by simp_all
    then have "round_float64 (- y) \<le> round_float64 (- x)" by (rule round_float64_mono_pos)
    then show ?thesis by (simp add: round_float64_minus)
  qed
qed

lemma round_float64_power2:
  assumes "- 1022 \<le> k" shows "round_float64 (2 powr of_int k) = 2 powr of_int k"
proof -
  define u :: real where "u = 2 powr (of_int k - 52)"
  have e: "float64_exponent (2 powr of_int k) = k"
    using assms by (simp add: float64_exponent_def)
  have ulp: "float64_ulp (2 powr of_int k) = u"
    by (simp add: float64_ulp_def e u_def)
  have upos: "0 < u" by (simp add: u_def)
  have "(2::real) powr of_int k = 2 powr (52 + (of_int k - 52))" by simp
  also have "\<dots> = 2 powr 52 * 2 powr (of_int k - 52)" by (rule powr_add)
  also have "(2::real) powr 52 = of_int (2 ^ 52)" by (simp add: powr_numeral del: power_numeral)
  finally have split: "2 powr of_int k = of_int (2 ^ 52) * u" unfolding u_def .
  have "of_int (2 ^ 52) * u / u = (of_int (2 ^ 52) :: real)"
    using upos by (simp del: power_numeral of_int_power of_int_numeral)
  then have "round_half_even (of_int (2 ^ 52) * u / u) = 2 ^ 52"
    by (simp only: rhe_of_int)
  then show ?thesis unfolding round_float64_def ulp unfolding split by (simp only:)
qed

lemma rounding_round_float64: "rounding round_float64"
  using round_float64_power2 [of 0] by (simp add: rounding_def round_float64_mono)

lemma round_float64_values [simp]:
  "round_float64 1 = 1" "round_float64 2 = 2" "round_float64 (1 / 2) = 1 / 2"
  using round_float64_power2 [of 0] round_float64_power2 [of 1] round_float64_power2 [of "- 1"]
  by (simp_all add: powr_minus divide_simps)

subsection \<open>Rescaling\<close>

lemma max_float_ge_1: "1 \<le> max_float"
proof -
  have "(1::real) \<le> (2 ^ 53 - 1) * 1" by simp
  also have "\<dots> \<le> (2 ^ 53 - 1) * 2 ^ 971"
    by (intro mult_left_mono) simp_all
  finally show ?thesis by (simp add: max_float_def)
qed

lemma overflow_Finite: "- max_float \<le> r \<Longrightarrow> r \<le> max_float \<Longrightarrow> overflow r = Finite r"
  by (simp add: overflow_def)

lemma fold_np_minimum_Finite:
  "fold np_minimum (map (\<lambda>p. Finite (g p)) rs) (Finite x) = Finite (fold min (map g rs) x)"
  by (induction rs arbitrary: x) (auto simp: np_minimum_def min_def)

lemma fold_np_maximum_Finite:
  "fold np_maximum (map (\<lambda>p. Finite (g p)) rs) (Finite x) = Finite (fold max (map g rs) x)"
  by (induction rs arbitrary: x) (auto simp: np_maximum_def max_def)

lemma amin_axis0_Min:
  assumes "R \<noteq> []"
  shows "amin_axis0 (finite_rows R) = Inr (Finite (Min (column0 R)), Finite (Min (column1 R)))"
proof -
  from assms obtain r rs where R: "R = r # rs" by (cases R) auto
  have "fold min (map fst rs) (fst r) = Min (set (fst r # map fst rs))"
    by (rule Min.set_eq_fold [symmetric])
  moreover have "fold min (map snd rs) (snd r) = Min (set (snd r # map snd rs))"
    by (rule Min.set_eq_fold [symmetric])
  ultimately show ?thesis using R
    by (simp add: amin_axis0_def column0_def column1_def fold_np_minimum_Finite finite_rows_def
        comp_def)
qed

lemma amax_axis0_Max:
  assumes "R \<noteq> []"
  shows "amax_axis0 (finite_rows R) = Inr (Finite (Max (column0 R)), Finite (Max (column1 R)))"
proof -
  from assms obtain r rs where R: "R = r # rs" by (cases R) auto
  have "fold max (map fst rs) (fst r) = Max (set (fst r # map fst rs))"
    by (rule Max.set_eq_fold [symmetric])
  moreover have "fold max (map snd rs) (snd r) = Max (set (snd r # map snd rs))"
    by (rule Max.set_eq_fold [symmetric])
  ultimately show ?thesis using R
    by (simp add: amax_axis0_def column0_def column1_def fold_np_maximum_Finite finite_rows_def
        comp_def)
qed

lemma text_loop_zip:
  "length ps \<le> length ls \<Longrightarrow>
   text_loop cm ps ls =
     Inr (map (\<lambda>pl. \<lparr>text_x = fst (fst pl), text_y = snd (fst pl), text_s = str_int (snd pl),
                      text_color = cm (snd pl)\<rparr>) (zip ps ls))"
  by (induction cm ps ls rule: text_loop.induct) (auto simp: then_do_def)

lemma text_loop_short:
  "length ls < length ps \<Longrightarrow> text_loop cm ps ls = Inl (IndexError ''index out of bounds'')"
  by (induction cm ps ls rule: text_loop.induct) (auto simp: then_do_def raise_def)

lemma column0_bounds:
  "p \<in> set R \<Longrightarrow> Min (column0 R) \<le> fst p \<and> fst p \<le> Max (column0 R)"
  by (simp add: column0_def)

lemma column1_bounds:
  "p \<in> set R \<Longrightarrow> Min (column1 R) \<le> snd p \<and> snd p \<le> Max (column1 R)"
  by (simp add: column1_def)

text \<open>One coordinate: the numerator stays between 0 and the range, the quotient in the unit interval.\<close>

lemma scaled_coordinate:
  assumes r: "rounding rnd" and lo: "lo \<le> a" and hi: "a \<le> hi"
    and pos: "0 < rnd (hi - lo)" and fin: "rnd (hi - lo) \<le> max_float"
  shows "true_divide rnd (fsub rnd (Finite a) (Finite lo)) (fsub rnd (Finite hi) (Finite lo))
           = Finite (scaled rnd lo hi a)"
    and "0 \<le> scaled rnd lo hi a" and "scaled rnd lo hi a \<le> 1"
proof -
  from r have mono: "\<And>x y. x \<le> y \<Longrightarrow> rnd x \<le> rnd y" and r0: "rnd 0 = 0" and r1: "rnd 1 = 1"
    by (auto simp: rounding_def mono_def)
  let ?n = "rnd (a - lo)" and ?d = "rnd (hi - lo)"
  have n0: "0 \<le> ?n" using mono [of 0 "a - lo"] lo r0 by simp
  have nd: "?n \<le> ?d" using mono [of "a - lo" "hi - lo"] hi by simp
  have mf: "0 \<le> max_float" using max_float_ge_1 by simp
  have num: "fsub rnd (Finite a) (Finite lo) = Finite ?n"
    using n0 nd fin mf by (simp add: overflow_Finite)
  have den: "fsub rnd (Finite hi) (Finite lo) = Finite ?d"
    using pos fin mf by (simp add: overflow_Finite)
  have q0: "0 \<le> ?n / ?d" using n0 pos by simp
  have q1: "?n / ?d \<le> 1" using nd pos by simp
  show s0: "0 \<le> scaled rnd lo hi a" using mono [OF q0] r0 by (simp add: scaled_def)
  show s1: "scaled rnd lo hi a \<le> 1" using mono [OF q1] r1 by (simp add: scaled_def)
  have "overflow (rnd (?n / ?d)) = Finite (rnd (?n / ?d))"
    using s0 s1 max_float_ge_1 by (intro overflow_Finite) (simp_all add: scaled_def)
  then show "true_divide rnd (fsub rnd (Finite a) (Finite lo)) (fsub rnd (Finite hi) (Finite lo))
           = Finite (scaled rnd lo hi a)"
    using num den pos by (simp add: scaled_def)
qed

lemma constant_coordinate:
  assumes r: "rounding rnd" and lo: "lo \<le> a" and hi: "a \<le> hi" and eq: "lo = hi"
  shows "true_divide rnd (fsub rnd (Finite a) (Finite lo)) (fsub rnd (Finite hi) (Finite lo)) = NaN"
proof -
  from r have r0: "rnd 0 = 0" by (simp add: rounding_def)
  from lo hi eq have "a = lo" "hi = lo" by simp_all
  moreover have "0 \<le> max_float" using max_float_ge_1 by simp
  ultimately show ?thesis using r0 by (simp add: overflow_def)
qed

lemma plot_digits_embedding_run:
  assumes "R \<noteq> []" "length R \<le> length y"
  shows "plot_digits_embedding rnd cm (finite_rows R) y title remove_ticks =
           Inr \<lparr>texts = map (\<lambda>pl. \<lparr>text_x = fst (fst pl), text_y = snd (fst pl),
                                       text_s = str_int (snd pl), text_color = cm (snd pl)\<rparr>)
                   (zip (rescale rnd (Finite (Min (column0 R)), Finite (Min (column1 R)))
                                     (Finite (Max (column0 R)), Finite (Max (column1 R)))
                                     (finite_rows R)) y),
                ticks_removed = remove_ticks, fig_title = title\<rparr>"
proof -
  have "length (rescale rnd (Finite (Min (column0 R)), Finite (Min (column1 R)))
                  (Finite (Max (column0 R)), Finite (Max (column1 R))) (finite_rows R)) \<le> length y"
    using assms by (simp add: rescale_def finite_rows_def)
  from text_loop_zip [OF this, of cm] assms(1) show ?thesis
    by (simp add: plot_digits_embedding_def amin_axis0_Min amax_axis0_Max then_do_def Let_def)
qed


lemma rescale_finite:
  assumes r: "rounding rnd"
    and c0: "0 < rnd (Max (column0 R) - Min (column0 R))" "rnd (Max (column0 R) - Min (column0 R)) \<le> max_float"
    and c1: "0 < rnd (Max (column1 R) - Min (column1 R))" "rnd (Max (column1 R) - Min (column1 R)) \<le> max_float"
  shows "rescale rnd (Finite (Min (column0 R)), Finite (Min (column1 R)))
                     (Finite (Max (column0 R)), Finite (Max (column1 R))) (finite_rows R)
         = map (\<lambda>p. (Finite (scaled rnd (Min (column0 R)) (Max (column0 R)) (fst p)),
                       Finite (scaled rnd (Min (column1 R)) (Max (column1 R)) (snd p)))) R"
proof -
  have "true_divide rnd (fsub rnd (Finite (fst p)) (Finite (Min (column0 R))))
            (fsub rnd (Finite (Max (column0 R))) (Finite (Min (column0 R))))
          = Finite (scaled rnd (Min (column0 R)) (Max (column0 R)) (fst p))
      \<and> true_divide rnd (fsub rnd (Finite (snd p)) (Finite (Min (column1 R))))
            (fsub rnd (Finite (Max (column1 R))) (Finite (Min (column1 R))))
          = Finite (scaled rnd (Min (column1 R)) (Max (column1 R)) (snd p))"
    if "p \<in> set R" for p
    using column0_bounds [OF that] column1_bounds [OF that] r c0 c1
    by (simp add: scaled_coordinate(1) del: fsub.simps true_divide.simps)
  then show ?thesis by (simp add: rescale_def finite_rows_def)
qed

lemma rescale_constant0:
  assumes r: "rounding rnd" and eq: "Min (column0 R) = Max (column0 R)"
    and q: "q \<in> set (rescale rnd (Finite (Min (column0 R)), lo1) (Finite (Max (column0 R)), hi1) (finite_rows R))"
  shows "fst q = NaN"
proof -
  from q obtain p where p: "p \<in> set R"
    and "fst q = true_divide rnd (fsub rnd (Finite (fst p)) (Finite (Min (column0 R))))
            (fsub rnd (Finite (Max (column0 R))) (Finite (Min (column0 R))))"
    by (auto simp: rescale_def finite_rows_def)
  moreover from column0_bounds [OF p] have "Min (column0 R) \<le> fst p" "fst p \<le> Max (column0 R)"
    by simp_all
  from r this eq have "true_divide rnd (fsub rnd (Finite (fst p)) (Finite (Min (column0 R))))
            (fsub rnd (Finite (Max (column0 R))) (Finite (Min (column0 R)))) = NaN"
    by (rule constant_coordinate)
  ultimately show ?thesis by simp
qed

lemma rescale_constant1:
  assumes r: "rounding rnd" and eq: "Min (column1 R) = Max (column1 R)"
    and q: "q \<in> set (rescale rnd (lo0, Finite (Min (column1 R))) (hi0, Finite (Max (column1 R))) (finite_rows R))"
  shows "snd q = NaN"
proof -
  from q obtain p where p: "p \<in> set R"
    and "snd q = true_divide rnd (fsub rnd (Finite (snd p)) (Finite (Min (column1 R))))
            (fsub rnd (Finite (Max (column1 R))) (Finite (Min (column1 R))))"
    by (auto simp: rescale_def finite_rows_def)
  moreover from column1_bounds [OF p] have "Min (column1 R) \<le> snd p" "snd p \<le> Max (column1 R)"
    by simp_all
  from r this eq have "true_divide rnd (fsub rnd (Finite (snd p)) (Finite (Min (column1 R))))
            (fsub rnd (Finite (Max (column1 R))) (Finite (Min (column1 R)))) = NaN"
    by (rule constant_coordinate)
  ultimately show ?thesis by simp
qed

lemma str_int_digits: "str_int 0 = ''0''" "str_int 1 = ''1''"
  by code_simp+

text \<open>The figure drawn for an embedding of finite numbers, for any rounding.\<close>

lemma plot_digits_embedding_rescaled:
  assumes r: "rounding rnd" and ne: "R \<noteq> []" and y: "length R \<le> length y"
  shows "\<exists>fig. plot_digits_embedding rnd cm (finite_rows R) y title remove_ticks = Inr fig
          \<and> length (texts fig) = length R
          \<and> ticks_removed fig = remove_ticks \<and> fig_title fig = title
          \<and> (0 < rnd (Max (column0 R) - Min (column0 R))
               \<and> rnd (Max (column0 R) - Min (column0 R)) \<le> max_float
               \<and> 0 < rnd (Max (column1 R) - Min (column1 R))
               \<and> rnd (Max (column1 R) - Min (column1 R)) \<le> max_float \<longrightarrow>
               texts fig =
                 map (\<lambda>pl. \<lparr>text_x = Finite (scaled rnd (Min (column0 R)) (Max (column0 R)) (fst (fst pl))),
                             text_y = Finite (scaled rnd (Min (column1 R)) (Max (column1 R)) (snd (fst pl))),
                             text_s = str_int (snd pl), text_color = cm (snd pl)\<rparr>) (zip R y)
               \<and> (\<forall>t \<in> set (texts fig). in_unit_interval (text_x t) \<and> in_unit_interval (text_y t)))
          \<and> (Min (column0 R) = Max (column0 R) \<longrightarrow> (\<forall>t \<in> set (texts fig). text_x t = NaN))
          \<and> (Min (column1 R) = Max (column1 R) \<longrightarrow> (\<forall>t \<in> set (texts fig). text_y t = NaN))"
proof -
  let ?lo0 = "Min (column0 R)" and ?hi0 = "Max (column0 R)"
  let ?lo1 = "Min (column1 R)" and ?hi1 = "Max (column1 R)"
  let ?X = "rescale rnd (Finite ?lo0, Finite ?lo1) (Finite ?hi0, Finite ?hi1) (finite_rows R)"
  let ?mk = "\<lambda>pl. \<lparr>text_x = fst (fst pl), text_y = snd (fst pl),
                     text_s = str_int (snd pl), text_color = cm (snd pl)\<rparr>"
  let ?fig = "\<lparr>texts = map ?mk (zip ?X y), ticks_removed = remove_ticks, fig_title = title\<rparr>"
  have run: "plot_digits_embedding rnd cm (finite_rows R) y title remove_ticks = Inr ?fig"
    using ne y by (rule plot_digits_embedding_run)
  have len: "length (texts ?fig) = length R"
    using y by (simp add: rescale_def finite_rows_def)
  have A: "texts ?fig =
             map (\<lambda>pl. \<lparr>text_x = Finite (scaled rnd ?lo0 ?hi0 (fst (fst pl))),
                         text_y = Finite (scaled rnd ?lo1 ?hi1 (snd (fst pl))),
                         text_s = str_int (snd pl), text_color = cm (snd pl)\<rparr>) (zip R y)
           \<and> (\<forall>t \<in> set (texts ?fig). in_unit_interval (text_x t) \<and> in_unit_interval (text_y t))"
    if c: "0 < rnd (?hi0 - ?lo0)" "rnd (?hi0 - ?lo0) \<le> max_float"
          "0 < rnd (?hi1 - ?lo1)" "rnd (?hi1 - ?lo1) \<le> max_float"
  proof
    have X: "?X = map (\<lambda>p. (Finite (scaled rnd ?lo0 ?hi0 (fst p)), Finite (scaled rnd ?lo1 ?hi1 (snd p)))) R"
      using r c by (rule rescale_finite)
    show eq: "texts ?fig =
             map (\<lambda>pl. \<lparr>text_x = Finite (scaled rnd ?lo0 ?hi0 (fst (fst pl))),
                         text_y = Finite (scaled rnd ?lo1 ?hi1 (snd (fst pl))),
                         text_s = str_int (snd pl), text_color = cm (snd pl)\<rparr>) (zip R y)"
      unfolding X by (simp add: zip_map1 comp_def case_prod_beta)
    show "\<forall>t \<in> set (texts ?fig). in_unit_interval (text_x t) \<and> in_unit_interval (text_y t)"
    proof
      fix t assume "t \<in> set (texts ?fig)"
      then obtain pl where pl: "pl \<in> set (zip R y)"
        and tx: "text_x t = Finite (scaled rnd ?lo0 ?hi0 (fst (fst pl)))"
        and ty: "text_y t = Finite (scaled rnd ?lo1 ?hi1 (snd (fst pl)))"
        unfolding eq by auto
      from pl have p: "fst pl \<in> set R"
        using set_zip_leftD [of "fst pl" "snd pl" R y] by simp
      from column0_bounds [OF p] column1_bounds [OF p] r c
      show "in_unit_interval (text_x t) \<and> in_unit_interval (text_y t)"
        unfolding tx ty by (simp add: scaled_coordinate(2,3))
    qed
  qed
  have B: "\<forall>t \<in> set (texts ?fig). text_x t = NaN" if eq: "?lo0 = ?hi0"
  proof
    fix t assume "t \<in> set (texts ?fig)"
    then obtain q l where "(q, l) \<in> set (zip ?X y)" and tx: "text_x t = fst q" by auto
    then have "q \<in> set ?X" by (auto dest: set_zip_leftD)
    with r eq have "fst q = NaN" by (rule rescale_constant0)
    with tx show "text_x t = NaN" by simp
  qed
  have C: "\<forall>t \<in> set (texts ?fig). text_y t = NaN" if eq: "?lo1 = ?hi1"
  proof
    fix t assume "t \<in> set (texts ?fig)"
    then obtain q l where "(q, l) \<in> set (zip ?X y)" and ty: "text_y t = snd q" by auto
    then have "q \<in> set ?X" by (auto dest: set_zip_leftD)
    with r eq have "snd q = NaN" by (rule rescale_constant1)
    with ty show "text_y t = NaN" by simp
  qed
  have tk: "ticks_removed ?fig = remove_ticks" "fig_title ?fig = title" by simp_all
  from run len tk A B C show ?thesis by (intro exI [of _ ?fig]) blast
qed

subsection \<open>Exceptions\<close>

lemma comprehension_raises:
  "\<forall>z \<in> set pre. \<not> raises (f z) \<Longrightarrow> f x = Inl e \<Longrightarrow> comprehension f (pre @ x # post) = Inl e"
  by (induction pre) (auto simp: then_do_def raises_def split: sum.splits)

lemma cell_plot_first_cases:
  "cell_plot_first X_train y_train =
     (if X_train = [] \<or> y_train = [] \<or> hd y_train < - 10 \<or> 10 \<le> hd y_train
      then Inl (IndexError ''index out of range'') else Inl (NotImplementedError ''TODO''))"
proof (cases X_train)
  case Nil
  then show ?thesis by (simp add: cell_plot_first_def py_index_def then_do_def raise_def)
next
  case X: (Cons x xs)
  show ?thesis
  proof (cases y_train)
    case Nil
    with X show ?thesis by (simp add: cell_plot_first_def py_index_def then_do_def raise_def)
  next
    case (Cons c cs)
    with X show ?thesis
      by (simp add: cell_plot_first_def py_index_def then_do_def plot_image_def raise_def
          class_names_def Let_def)
  qed
qed

lemma plot_digits_embedding_short:
  assumes "X2d \<noteq> []" "length y < length X2d"
  shows "plot_digits_embedding rnd cm X2d y title remove_ticks = Inl (IndexError ''index out of bounds'')"
proof -
  from assms(1) obtain r rs where X: "X2d = r # rs" by (cases X2d) auto
  have "length y < length (rescale rnd lo hi X2d)" for lo hi
    using assms(2) by (simp add: rescale_def)
  then have "text_loop cm (rescale rnd lo hi X2d) y = Inl (IndexError ''index out of bounds'')" for lo hi
    by (rule text_loop_short)
  then show ?thesis using X
    by (simp add: plot_digits_embedding_def amin_axis0_def amax_axis0_def then_do_def Let_def)
qed

subsection \<open>Blocks of a concatenation\<close>

lemma blocks_Suc: "length b = r \<Longrightarrow> blocks (Suc n) r (b @ ys) = b # blocks n r ys"
proof -
  assume b: "length b = r"
  have "[0..<Suc n] = 0 # map Suc [0..<n]"
    by (simp add: upt_conv_Cons map_Suc_upt del: upt_Suc)
  then have "blocks (Suc n) r (b @ ys)
      = take r (b @ ys) # map (\<lambda>i. take r (drop (Suc i * r) (b @ ys))) [0..<n]"
    by (simp add: blocks_def comp_def del: upt_Suc)
  also have "take r (b @ ys) = b" using b by simp
  also have "map (\<lambda>i. take r (drop (Suc i * r) (b @ ys))) [0..<n] = blocks n r ys"
    using b by (simp add: blocks_def)
  finally show ?thesis .
qed

lemma blocks_concat:
  "\<forall>b \<in> set xss. length b = r \<Longrightarrow> blocks (length xss) r (concat xss) = xss"
proof (induction xss)
  case Nil
  then show ?case by (simp add: blocks_def)
next
  case (Cons b xss)
  then show ?case by (simp add: blocks_Suc)
qed

lemma blocks_map: "blocks n r (map f xs) = map (map f) (blocks n r xs)"
  by (simp add: blocks_def take_map drop_map)

lemma blocks_flip:
  assumes "length xs = n * r"
  shows "blocks n r (concat (rev (blocks n r xs))) = rev (blocks n r xs)"
  using blocks_concat [of "rev (blocks n r xs)" r] length_block [OF assms] by simp

lemma concat_replicate_replicate:
  "concat (replicate n (replicate m x)) = replicate (n * m) x"
  by (induction n) (simp_all add: replicate_add)

section \<open>Claims\<close>

text \<open>
  C2. Calling \<open>plot_image\<close> raises \<open>NotImplementedError("TODO")\<close> for every combination
  of its arguments \<open>img\<close>, \<open>reshape_size\<close>, \<open>cmap\<close>, \<open>ax\<close> and \<open>title\<close>; it never
  reaches its \<open>return ax\<close>.
\<close>

theorem plot_image_raises:
  "plot_image img reshape_size cmap ax title = Inl (NotImplementedError ''TODO'')"
  by (simp add: plot_image_def then_do_def raise_def)

text \<open>
  C10. For every array \<open>arr\<close> of 784 elements, \<open>im_reshape_bw\<close> returns a 28 by 28 array
  whose entry at row \<open>i\<close>, column \<open>j\<close> is \<open>255 * arr[28 * (27 - i) + j]\<close>, for all
  \<open>i, j < 28\<close>: the vertical flip of the reshaped input, scaled by 255.
\<close>

theorem im_reshape_bw_flip:
  assumes wf: "wf_ndarray arr" and sz: "size_nd arr = 784"
    and i: "i < 28" and j: "j < 28"
  shows "\<exists>out. im_reshape_bw arr = Inr out \<and> shape out = [28, 28]
           \<and> length (flat out) = 784
           \<and> flat out ! (28 * i + j) = 255 * flat arr ! (28 * (27 - i) + j)"
proof -
  let ?ys = "map (\<lambda>x. x * 255) (flat arr)"
  let ?out = "NDArray [28, 28] (concat (rev (blocks 28 28 ?ys)))"
  have len: "length ?ys = 28 * 28"
    using wf sz by (simp add: wf_ndarray_def size_nd_def)
  have run: "im_reshape_bw arr = Inr ?out"
    using sz by (simp add: im_reshape_bw_def reshape_def then_do_def times_scalar_def flipud_def)
  have "concat (rev (blocks 28 28 ?ys)) ! (i * 28 + j) = ?ys ! ((28 - 1 - i) * 28 + j)"
    using len i j by (rule nth_flip_blocks)
  moreover have "(28 - 1 - i) * 28 + j < length (flat arr)"
    using len i j by simp
  ultimately have val: "flat ?out ! (28 * i + j) = 255 * flat arr ! (28 * (27 - i) + j)"
    by (simp add: mult.commute)
  have "length (concat (rev (blocks 28 28 ?ys))) = 784"
    using length_concat_uniform [of "rev (blocks 28 28 ?ys)" 28] length_block [OF len]
    by simp
  with run val show ?thesis by simp
qed

theorem im_reshape_bw_flip_witness:
  "wf_ndarray (NDArray [784] (map int [0..<784])) \<and> size_nd (NDArray [784] (map int [0..<784])) = 784
   \<and> (3::nat) < 28 \<and> (5::nat) < 28
   \<and> (\<exists>out. im_reshape_bw (NDArray [784] (map int [0..<784])) = Inr out \<and> shape out = [28, 28]
         \<and> length (flat out) = 784
         \<and> flat out ! (28 * 3 + 5) = 255 * flat (NDArray [784] (map int [0..<784])) ! (28 * (27 - 3) + 5))"
proof -
  have wf: "wf_ndarray (NDArray [784] (map int [0..<784]))" by (simp add: wf_ndarray_def)
  have sz: "size_nd (NDArray [784] (map int [0..<784])) = 784" by (simp add: size_nd_def)
  show ?thesis
    using wf sz im_reshape_bw_flip [OF wf sz, of 3 5] by simp
qed

text \<open>
  C9 (as amended). \<open>im_colorize_rgba\<close> raises ValueError exactly when the array has
  a number of dimensions other than 1 or 2, or has 1 dimension and a number of elements
  other than 784 (numpy's reshape to 28 by 28 by 4 then fails); it raises nothing else.
  For every 1-dimensional input of 784 elements it returns, without raising, 784 values
  of 32 bits whose first two axes are 28 by 28.
\<close>

theorem im_colorize_rgba_raises:
  "(raises_ValueError (im_colorize_rgba cm arr label)
      = (ndim arr \<noteq> 1 \<and> ndim arr \<noteq> 2 \<or> ndim arr = 1 \<and> size_nd arr \<noteq> 784))
   \<and> (raises (im_colorize_rgba cm arr label) = raises_ValueError (im_colorize_rgba cm arr label))
   \<and> (wf_ndarray arr \<and> ndim arr = 1 \<and> size_nd arr = 784 \<longrightarrow>
         (\<exists>out. im_colorize_rgba cm arr label = Inr out \<and> take 2 (shape out) = [28, 28]
                \<and> length (flat out) = 784))"
proof -
  consider (one) "ndim arr = 1" | (two) "ndim arr = 2" | (other) "ndim arr \<noteq> 1" "ndim arr \<noteq> 2"
    by blast
  then show ?thesis
  proof cases
    case one
    have "length (flat out) = 784"
      if wf: "wf_ndarray arr" and sz: "size_nd arr = 784"
        and out: "im_colorize_rgba cm arr label = Inr out" for out
    proof -
      let ?xs = "map (\<lambda>x. x * 255) (flat (times_color arr (cm label)))"
      have "length ?xs = 28 * 112"
        using wf sz by (simp add: length_times_color wf_ndarray_def size_nd_def)
      then have "length (concat (rev (blocks 28 112 ?xs))) = 28 * 112"
        by (rule length_flip)
      with out sz one show ?thesis by (auto simp: colorize_1d)
    qed
    with one show ?thesis
      by (auto simp: colorize_1d raises_ValueError_def raises_def)
  next
    case two
    with colorize_2d [OF two, of cm label] show ?thesis
      by (simp add: raises_def raises_ValueError_def split: sum.splits)
  next
    case other
    then show ?thesis by (simp add: colorize_other raises_ValueError_def raises_def)
  qed
qed

theorem im_colorize_rgba_raises_witness:
  "(raises_ValueError (im_colorize_rgba opaque_black (NDArray [784] (replicate 784 1)) 0)
      = (ndim (NDArray [784] (replicate 784 (1::real))) \<noteq> 1 \<and> ndim (NDArray [784] (replicate 784 (1::real))) \<noteq> 2
         \<or> ndim (NDArray [784] (replicate 784 (1::real))) = 1 \<and> size_nd (NDArray [784] (replicate 784 (1::real))) \<noteq> 784))
   \<and> wf_ndarray (NDArray [784] (replicate 784 (1::real)))
   \<and> ndim (NDArray [784] (replicate 784 (1::real))) = 1
   \<and> size_nd (NDArray [784] (replicate 784 (1::real))) = 784
   \<and> (\<exists>out. im_colorize_rgba opaque_black (NDArray [784] (replicate 784 1)) 0 = Inr out
          \<and> take 2 (shape out) = [28, 28] \<and> length (flat out) = 784)"
  using im_colorize_rgba_raises [of opaque_black "NDArray [784] (replicate 784 1)" 0]
  by (simp add: wf_ndarray_def ndim_def size_nd_def)

text \<open>
  The claim as stated fails for a 1-dimensional array of one element: ValueError is
  raised although the number of dimensions is 1.
\<close>

theorem im_colorize_rgba_counterexample:
  "ndim (NDArray [1] [0::real]) = 1
   \<and> im_colorize_rgba opaque_black (NDArray [1] [0]) 0 = Inl (ValueError ''cannot reshape array'')"
  by (simp add: im_colorize_rgba_def Let_def then_do_def reshape_def raise_def ndim_def size_nd_def
      times_color_def opaque_black_def)

text \<open>
  C8 (as amended). Let \<open>X2d\<close> be an embedding of finite floats with a label in
  \<open>y\<close> for each row. If, for each of the two columns, the float64 difference
  \<open>x_max - x_min\<close> is positive and finite (the maximum is strictly greater than the
  minimum and the subtraction does not overflow), \<open>plot_digits_embedding\<close> draws one
  text per row, with the row's label, at the float64 value of
  \<open>(X2d - x_min) / (x_max - x_min)\<close>, and all these coordinates lie in the closed
  interval from 0 to 1 in both dimensions. If a column is constant, the rescaling
  divides by zero in that column: every coordinate of the column is \<open>0/0\<close>, numpy's
  \<open>nan\<close>.
\<close>

theorem plot_digits_embedding_unit_interval:
  assumes ne: "R \<noteq> []" and y: "length R \<le> length y"
  shows "\<exists>fig. plot_digits_embedding round_float64 cm (finite_rows R) y title remove_ticks = Inr fig
          \<and> length (texts fig) = length R
          \<and> ticks_removed fig = remove_ticks \<and> fig_title fig = title
          \<and> (0 < round_float64 (Max (column0 R) - Min (column0 R))
               \<and> round_float64 (Max (column0 R) - Min (column0 R)) \<le> max_float
               \<and> 0 < round_float64 (Max (column1 R) - Min (column1 R))
               \<and> round_float64 (Max (column1 R) - Min (column1 R)) \<le> max_float \<longrightarrow>
               texts fig =
                 map (\<lambda>pl. \<lparr>text_x = Finite (scaled round_float64 (Min (column0 R)) (Max (column0 R)) (fst (fst pl))),
                             text_y = Finite (scaled round_float64 (Min (column1 R)) (Max (column1 R)) (snd (fst pl))),
                             text_s = str_int (snd pl), text_color = cm (snd pl)\<rparr>) (zip R y)
               \<and> (\<forall>t \<in> set (texts fig). in_unit_interval (text_x t) \<and> in_unit_interval (text_y t)))
          \<and> (Min (column0 R) = Max (column0 R) \<longrightarrow> (\<forall>t \<in> set (texts fig). text_x t = NaN))
          \<and> (Min (column1 R) = Max (column1 R) \<longrightarrow> (\<forall>t \<in> set (texts fig). text_y t = NaN))"
  using rounding_round_float64 ne y by (rule plot_digits_embedding_rescaled)

theorem plot_digits_embedding_unit_interval_witness:
  "[(1::real, 5::real), (3, 6), (2, 7)] \<noteq> []
   \<and> length [(1::real, 5::real), (3, 6), (2, 7)] \<le> length [7, 0, 3 :: int]
   \<and> 0 < round_float64 (Max (column0 [(1, 5), (3, 6), (2, 7)]) - Min (column0 [(1, 5), (3, 6), (2, 7)]))
   \<and> round_float64 (Max (column0 [(1, 5), (3, 6), (2, 7)]) - Min (column0 [(1, 5), (3, 6), (2, 7)])) \<le> max_float
   \<and> 0 < round_float64 (Max (column1 [(1, 5), (3, 6), (2, 7)]) - Min (column1 [(1, 5), (3, 6), (2, 7)]))
   \<and> round_float64 (Max (column1 [(1, 5), (3, 6), (2, 7)]) - Min (column1 [(1, 5), (3, 6), (2, 7)])) \<le> max_float
   \<and> (\<exists>fig. plot_digits_embedding round_float64 opaque_black (finite_rows [(1, 5), (3, 6), (2, 7)]) [7, 0, 3] None True
               = Inr fig
         \<and> map text_x (texts fig) = [Finite 0, Finite 1, Finite (1 / 2)]
         \<and> map text_y (texts fig) = [Finite 0, Finite (1 / 2), Finite 1]
         \<and> (\<forall>t \<in> set (texts fig). in_unit_interval (text_x t) \<and> in_unit_interval (text_y t)))"
proof -
  have ne: "[(1::real, 5::real), (3, 6), (2, 7)] \<noteq> []" by simp
  have y: "length [(1::real, 5::real), (3, 6), (2, 7)] \<le> length [7, 0, 3 :: int]" by simp
  have c0: "Min (column0 [(1, 5), (3, 6), (2, 7)]) = 1" "Max (column0 [(1, 5), (3, 6), (2, 7)]) = 3"
    by (simp_all add: column0_def)
  have c1: "Min (column1 [(1, 5), (3, 6), (2, 7)]) = 5" "Max (column1 [(1, 5), (3, 6), (2, 7)]) = 7"
    by (simp_all add: column1_def)
  have m: "2 \<le> max_float" by (simp add: max_float_def)
  from plot_digits_embedding_unit_interval [OF ne y, of opaque_black None True]
    c0 c1 m
  show ?thesis by (auto simp: scaled_def)
qed

text \<open>An embedding with a constant second column, evaluated.\<close>

lemma plot_digits_embedding_constant_column:
  "plot_digits_embedding round_float64 opaque_black (finite_rows [(1, 5), (3, 5), (2, 5)]) [0, 1, 0] None True
     = Inr \<lparr>texts = [\<lparr>text_x = Finite 0, text_y = NaN, text_s = ''0'', text_color = (0, 0, 0, 1)\<rparr>,
                       \<lparr>text_x = Finite 1, text_y = NaN, text_s = ''1'', text_color = (0, 0, 0, 1)\<rparr>,
                       \<lparr>text_x = Finite (1 / 2), text_y = NaN, text_s = ''0'', text_color = (0, 0, 0, 1)\<rparr>],
              ticks_removed = True, fig_title = None\<rparr>"
proof -
  have "overflow 0 = Finite 0" "overflow 1 = Finite 1" "overflow 2 = Finite 2"
    "overflow (1 / 2) = Finite (1 / 2)"
    by (simp_all add: overflow_def max_float_def)
  then show ?thesis
    by (simp add: plot_digits_embedding_def finite_rows_def amin_axis0_def amax_axis0_def
        np_minimum_def np_maximum_def then_do_def rescale_def str_int_digits opaque_black_def)
qed

text \<open>
  The claim as stated fails when the subtraction overflows. The column with the entries
  \<open>2^1023\<close> and \<open>-2^1023\<close> has a maximum greater than its minimum; \<open>x_max - x_min\<close>
  and the first row's \<open>X2d - x_min\<close> are \<open>2^1024\<close>, beyond the largest float, hence
  \<open>inf\<close>, and the first row is drawn at \<open>inf / inf = nan\<close>.
\<close>

theorem plot_digits_embedding_overflow_counterexample:
  "Min (column0 [(2 ^ 1023, 0), (- (2 ^ 1023), 1)]) < Max (column0 [(2 ^ 1023, 0), (- (2 ^ 1023), 1)])
   \<and> Min (column1 [(2 ^ 1023, 0), (- (2 ^ 1023), 1)]) < Max (column1 [(2 ^ 1023, 0), (- (2 ^ 1023), 1)])
   \<and> plot_digits_embedding round_float64 opaque_black
        (finite_rows [(2 ^ 1023, 0), (- (2 ^ 1023), 1)]) [0, 1] None True
      = Inr \<lparr>texts = [\<lparr>text_x = NaN, text_y = Finite 0, text_s = ''0'', text_color = (0, 0, 0, 1)\<rparr>,
                        \<lparr>text_x = Finite 0, text_y = Finite 1, text_s = ''1'', text_color = (0, 0, 0, 1)\<rparr>],
               ticks_removed = True, fig_title = None\<rparr>"
proof -
  define h :: real where "h = 2 ^ 1023"
  have hpos: "0 < h" by (simp add: h_def)
  have "h - - h = 2 powr of_int 1024" by (simp add: h_def)
  then have "round_float64 (h - - h) = 2 powr of_int 1024"
    using round_float64_power2 [of 1024] by simp
  moreover have "max_float < 2 powr of_int 1024" by (simp add: max_float_def)
  ultimately have inf: "overflow (round_float64 (h - - h)) = PosInf"
    by (simp add: overflow_def)
  have fin: "overflow 0 = Finite 0" "overflow 1 = Finite 1"
    using max_float_ge_1 by (simp_all add: overflow_def)
  have "Min (column0 [(h, 0), (- h, 1)]) < Max (column0 [(h, 0), (- h, 1)])
   \<and> Min (column1 [(h, 0), (- h, 1)]) < Max (column1 [(h, 0), (- h, 1)])
   \<and> plot_digits_embedding round_float64 opaque_black (finite_rows [(h, 0), (- h, 1)]) [0, 1] None True
      = Inr \<lparr>texts = [\<lparr>text_x = NaN, text_y = Finite 0, text_s = ''0'', text_color = (0, 0, 0, 1)\<rparr>,
                        \<lparr>text_x = Finite 0, text_y = Finite 1, text_s = ''1'', text_color = (0, 0, 0, 1)\<rparr>],
               ticks_removed = True, fig_title = None\<rparr>"
    using hpos inf fin
    by (simp add: column0_def column1_def plot_digits_embedding_def finite_rows_def amin_axis0_def
        amax_axis0_def np_minimum_def np_maximum_def then_do_def rescale_def
        str_int_digits opaque_black_def)
  then show ?thesis unfolding h_def .
qed

text \<open>
  C4 (as amended). Errors surface as unhandled exceptions, with one handler: the cell
  that selects the TensorFlow version wraps the line magic in
  \<open>try: ... except Exception: pass\<close>, so any exception of a class deriving from
  \<open>Exception\<close> that the magic raises is dropped and the cell goes on as if the magic
  had returned; an exception outside \<open>Exception\<close> still leaves the cell. After the
  handler that cell propagates a failing import and its failing assertion. The
  repository-defined functions, the cell that calls \<open>plot_image\<close> on the first
  training image and the cell that loads the saved model handle nothing; the exceptions
  that arise inside them reach the caller unchanged: the IndexError of an index out of range and the \<open>NotImplementedError\<close> of
  \<open>plot_image\<close> in the cell that calls it, the error of numpy's reshape in
  \<open>im_reshape_bw\<close> and \<open>im_colorize_rgba\<close>, the latter's own ValueError, the error
  of the reduction of an empty array and the IndexError of a missing label in
  \<open>plot_digits_embedding\<close>, the first exception raised in a list comprehension and
  by either comprehension or by bokeh in \<open>plot_interactive_embedding\<close>, and the error
  of \<open>load_model\<close> in the cell that loads the saved model.
\<close>

theorem exceptions_propagate:
  "(is_Exception e \<longrightarrow>
      cell_tensorflow_version (Inl e) import_tensorflow import_keras
        = cell_tensorflow_version (Inr ()) import_tensorflow import_keras)
   \<and> (\<not> is_Exception e \<longrightarrow>
      cell_tensorflow_version (Inl e) import_tensorflow import_keras = Inl e)
   \<and> (import_tensorflow = Inl e2 \<longrightarrow>
      cell_tensorflow_version (Inr ()) import_tensorflow import_keras = Inl e2)
   \<and> (import_tensorflow = Inr version \<and> \<not> version \<ge> ''2.0'' \<longrightarrow>
      cell_tensorflow_version (Inr ()) import_tensorflow import_keras = Inl AssertionError)
   \<and> (import_tensorflow = Inr version \<and> version \<ge> ''2.0'' \<longrightarrow>
      cell_tensorflow_version (Inr ()) import_tensorflow import_keras = import_keras)
   \<and> (X_train = [] \<or> y_train = [] \<or> hd y_train < - 10 \<or> 10 \<le> hd y_train \<longrightarrow>
      cell_plot_first X_train y_train = Inl (IndexError ''index out of range''))
   \<and> (X_train \<noteq> [] \<and> y_train \<noteq> [] \<and> - 10 \<le> hd y_train \<and> hd y_train < 10 \<longrightarrow>
      cell_plot_first X_train y_train = Inl (NotImplementedError ''TODO''))
   \<and> ((im_reshape_bw arr = Inl e3) = (reshape [28, 28] arr = Inl e3))
   \<and> (ndim img = 1 \<and> reshape [28, 28, 4] (times_color img (cm label)) = Inl e4 \<longrightarrow>
      im_colorize_rgba cm img label = Inl e4)
   \<and> (ndim img \<noteq> 1 \<and> ndim img \<noteq> 2 \<longrightarrow>
      im_colorize_rgba cm img label = Inl (ValueError ''Image format not handled (yet).''))
   \<and> (amin_axis0 X2d = Inl e5 \<longrightarrow>
      plot_digits_embedding rnd cm X2d y title remove_ticks = Inl e5)
   \<and> (X2d \<noteq> [] \<and> length y < length X2d \<longrightarrow>
      plot_digits_embedding rnd cm X2d y title remove_ticks = Inl (IndexError ''index out of bounds''))
   \<and> ((\<forall>z \<in> set pre. \<not> raises (f z)) \<and> f x = Inl e6 \<longrightarrow>
      comprehension f (pre @ x # post) = Inl e6)
   \<and> (comprehension im_reshape_bw X_img = Inl e7 \<longrightarrow>
      plot_interactive_embedding cm bokeh_plot X ys X_img title = Inl e7)
   \<and> (comprehension im_reshape_bw X_img = Inr imgs
      \<and> comprehension (\<lambda>xy. im_colorize_rgba cm (fst xy) (snd xy)) (zip X_img ys) = Inl e8 \<longrightarrow>
      plot_interactive_embedding cm bokeh_plot X ys X_img title = Inl e8)
   \<and> (comprehension im_reshape_bw X_img = Inr imgs
      \<and> comprehension (\<lambda>xy. im_colorize_rgba cm (fst xy) (snd xy)) (zip X_img ys) = Inr rgbas \<longrightarrow>
      plot_interactive_embedding cm bokeh_plot X ys X_img title
        = bokeh_plot \<lparr>x1 = map fst X, x2 = map snd X, colors = map (\<lambda>yi. hex_color (cm yi)) ys,
                       images = imgs, images_rgba = rgbas, labels = map str_int ys\<rparr> title)
   \<and> (path_exists dir convmodel_file \<and> load_model dir convmodel_file = Inl e9 \<longrightarrow>
      cell_convnet fresh dir = Inl e9)"
proof (intro conjI)
  show "is_Exception e \<longrightarrow>
      cell_tensorflow_version (Inl e) import_tensorflow import_keras
        = cell_tensorflow_version (Inr ()) import_tensorflow import_keras"
    by (simp add: cell_tensorflow_version_def try_except_Exception_pass_def then_do_def)
  show "\<not> is_Exception e \<longrightarrow>
      cell_tensorflow_version (Inl e) import_tensorflow import_keras = Inl e"
    by (simp add: cell_tensorflow_version_def try_except_Exception_pass_def then_do_def)
  show "import_tensorflow = Inl e2 \<longrightarrow>
      cell_tensorflow_version (Inr ()) import_tensorflow import_keras = Inl e2"
    by (simp add: cell_tensorflow_version_def try_except_Exception_pass_def then_do_def)
  show "import_tensorflow = Inr version \<and> \<not> version \<ge> ''2.0'' \<longrightarrow>
      cell_tensorflow_version (Inr ()) import_tensorflow import_keras = Inl AssertionError"
    by (simp add: cell_tensorflow_version_def try_except_Exception_pass_def then_do_def raise_def)
  show "import_tensorflow = Inr version \<and> version \<ge> ''2.0'' \<longrightarrow>
      cell_tensorflow_version (Inr ()) import_tensorflow import_keras = import_keras"
    by (simp add: cell_tensorflow_version_def try_except_Exception_pass_def then_do_def)
  show "X_train = [] \<or> y_train = [] \<or> hd y_train < - 10 \<or> 10 \<le> hd y_train \<longrightarrow>
      cell_plot_first X_train y_train = Inl (IndexError ''index out of range'')"
    by (auto simp: cell_plot_first_cases)
  show "X_train \<noteq> [] \<and> y_train \<noteq> [] \<and> - 10 \<le> hd y_train \<and> hd y_train < 10 \<longrightarrow>
      cell_plot_first X_train y_train = Inl (NotImplementedError ''TODO'')"
    by (auto simp: cell_plot_first_cases)
  show "(im_reshape_bw arr = Inl e3) = (reshape [28, 28] arr = Inl e3)"
    by (auto simp: im_reshape_bw_def then_do_def flipud_def times_scalar_def reshape_def raise_def
        split: sum.splits if_splits)
  show "ndim img = 1 \<and> reshape [28, 28, 4] (times_color img (cm label)) = Inl e4 \<longrightarrow>
      im_colorize_rgba cm img label = Inl e4"
    by (simp add: im_colorize_rgba_def Let_def then_do_def)
  show "ndim img \<noteq> 1 \<and> ndim img \<noteq> 2 \<longrightarrow>
      im_colorize_rgba cm img label = Inl (ValueError ''Image format not handled (yet).'')"
    by (simp add: im_colorize_rgba_def Let_def then_do_def raise_def)
  show "amin_axis0 X2d = Inl e5 \<longrightarrow>
      plot_digits_embedding rnd cm X2d y title remove_ticks = Inl e5"
    by (simp add: plot_digits_embedding_def then_do_def)
  show "X2d \<noteq> [] \<and> length y < length X2d \<longrightarrow>
      plot_digits_embedding rnd cm X2d y title remove_ticks = Inl (IndexError ''index out of bounds'')"
    by (simp add: plot_digits_embedding_short)
  show "(\<forall>z \<in> set pre. \<not> raises (f z)) \<and> f x = Inl e6 \<longrightarrow>
      comprehension f (pre @ x # post) = Inl e6"
    by (simp add: comprehension_raises)
  show "comprehension im_reshape_bw X_img = Inl e7 \<longrightarrow>
      plot_interactive_embedding cm bokeh_plot X ys X_img title = Inl e7"
    by (simp add: plot_interactive_embedding_def Let_def then_do_def)
  show "comprehension im_reshape_bw X_img = Inr imgs
      \<and> comprehension (\<lambda>xy. im_colorize_rgba cm (fst xy) (snd xy)) (zip X_img ys) = Inl e8 \<longrightarrow>
      plot_interactive_embedding cm bokeh_plot X ys X_img title = Inl e8"
    by (simp add: plot_interactive_embedding_def Let_def then_do_def)
  show "comprehension im_reshape_bw X_img = Inr imgs
      \<and> comprehension (\<lambda>xy. im_colorize_rgba cm (fst xy) (snd xy)) (zip X_img ys) = Inr rgbas \<longrightarrow>
      plot_interactive_embedding cm bokeh_plot X ys X_img title
        = bokeh_plot \<lparr>x1 = map fst X, x2 = map snd X, colors = map (\<lambda>yi. hex_color (cm yi)) ys,
                       images = imgs, images_rgba = rgbas, labels = map str_int ys\<rparr> title"
    by (simp add: plot_interactive_embedding_def Let_def then_do_def)
  show "path_exists dir convmodel_file \<and> load_model dir convmodel_file = Inl e9 \<longrightarrow>
      cell_convnet fresh dir = Inl e9"
    by (simp add: cell_convnet_def then_do_def)
qed

theorem exceptions_propagate_witness:
  "is_Exception (UsageError ''not found'')
   \<and> cell_tensorflow_version (Inl (UsageError ''not found'')) (Inl (ModuleNotFoundError ''tensorflow'')) (Inr ())
        = cell_tensorflow_version (Inr ()) (Inl (ModuleNotFoundError ''tensorflow'')) (Inr ())
   \<and> cell_tensorflow_version (Inr ()) (Inl (ModuleNotFoundError ''tensorflow'')) (Inr ())
        = Inl (ModuleNotFoundError ''tensorflow'')
   \<and> \<not> is_Exception KeyboardInterrupt
   \<and> cell_tensorflow_version (Inl KeyboardInterrupt) (Inr ''2.1.0'') (Inl (ModuleNotFoundError ''keras''))
        = Inl KeyboardInterrupt
   \<and> ''2.1.0'' \<ge> ''2.0''
   \<and> cell_tensorflow_version (Inr ()) (Inr ''2.1.0'') (Inl (ModuleNotFoundError ''keras''))
        = Inl (ModuleNotFoundError ''keras'')
   \<and> cell_plot_first ([] :: real ndarray list) [3] = Inl (IndexError ''index out of range'')
   \<and> [NDArray [1] [0::real]] \<noteq> [] \<and> [3::int] \<noteq> [] \<and> - 10 \<le> hd [3::int] \<and> hd [3::int] < 10
   \<and> cell_plot_first [NDArray [1] [0::real]] [3] = Inl (NotImplementedError ''TODO'')
   \<and> reshape [28, 28] (NDArray [1] [0::real]) = Inl (ValueError ''cannot reshape array'')
   \<and> im_reshape_bw (NDArray [1] [0::real]) = Inl (ValueError ''cannot reshape array'')
   \<and> ndim (NDArray [1] [0::real]) = 1
   \<and> reshape [28, 28, 4] (times_color (NDArray [1] [0]) (opaque_black 0)) = Inl (ValueError ''cannot reshape array'')
   \<and> im_colorize_rgba opaque_black (NDArray [1] [0]) 0 = Inl (ValueError ''cannot reshape array'')
   \<and> ndim (NDArray [] [0::real]) \<noteq> 1 \<and> ndim (NDArray [] [0::real]) \<noteq> 2
   \<and> im_colorize_rgba opaque_black (NDArray [] [0]) 0 = Inl (ValueError ''Image format not handled (yet).'')
   \<and> plot_digits_embedding round_float64 opaque_black [] [] None True
        = Inl (ValueError ''zero-size array to reduction operation minimum which has no identity'')
   \<and> [(Finite 0, Finite 0)] \<noteq> [] \<and> length ([] :: int list) < length [(Finite 0, Finite 0)]
   \<and> plot_digits_embedding round_float64 opaque_black [(Finite 0, Finite 0)] [] None True
        = Inl (IndexError ''index out of bounds'')
   \<and> comprehension im_reshape_bw [NDArray [1] [0::real]] = Inl (ValueError ''cannot reshape array'')
   \<and> plot_interactive_embedding opaque_black (curry Inr) [(Finite 0, Finite 0)] [3] [NDArray [1] [0]] None
        = Inl (ValueError ''cannot reshape array'')
   \<and> path_exists (Map.empty(convmodel_file \<mapsto> (ModelPlot :: nat stored))) convmodel_file
   \<and> load_model (Map.empty(convmodel_file \<mapsto> (ModelPlot :: nat stored))) convmodel_file
        = Inl (OSError ''Unable to open file'')
   \<and> cell_convnet (0::nat) (Map.empty(convmodel_file \<mapsto> ModelPlot)) = Inl (OSError ''Unable to open file'')"
proof -
  have r1: "reshape [28, 28] (NDArray [1] [0::real]) = Inl (ValueError ''cannot reshape array'')"
    by (simp add: reshape_def size_nd_def raise_def)
  have r2: "reshape [28, 28, 4] (times_color (NDArray [1] [0]) (opaque_black 0))
              = Inl (ValueError ''cannot reshape array'')"
    by (simp add: reshape_def size_nd_def raise_def times_color_def opaque_black_def)
  have a0: "amin_axis0 [] = Inl (ValueError ''zero-size array to reduction operation minimum which has no identity'')"
    by (simp add: amin_axis0_def raise_def)
  have lm: "load_model (Map.empty(convmodel_file \<mapsto> (ModelPlot :: nat stored))) convmodel_file
              = Inl (OSError ''Unable to open file'')"
    by (simp add: load_model_def raise_def)
  have v: "''2.1.0'' \<ge> ''2.0''" by simp
  note A = exceptions_propagate [where e = "UsageError ''not found''"
      and import_tensorflow = "Inl (ModuleNotFoundError ''tensorflow'')"
      and ?e2.0 = "ModuleNotFoundError ''tensorflow''" and import_keras = "Inr ()"
      and version = "''2.1.0''"
      and X_train = "[NDArray [1] [0::real]]" and y_train = "[3]"
      and img = "NDArray [1] [0]" and ?X2d.0 = "[(Finite 0, Finite 0)]"
      and arr = "NDArray [1] [0::real]" and ?e3.0 = "ValueError ''cannot reshape array''"
      and cm = opaque_black and label = 0 and ?e4.0 = "ValueError ''cannot reshape array''"
      and y = "[]" and rnd = round_float64 and title = None and remove_ticks = True
      and ?e5.0 = "ValueError ''zero-size array to reduction operation minimum which has no identity''"
      and pre = "[]" and f = im_reshape_bw and x = "NDArray [1] [0::real]" and post = "[]"
      and ?e6.0 = "ValueError ''cannot reshape array''"
      and X_img = "[NDArray [1] [0]]" and ?e7.0 = "ValueError ''cannot reshape array''"
      and bokeh_plot = "curry Inr" and X = "[(Finite 0, Finite 0)]" and ys = "[3]"
      and imgs = "[]" and rgbas = "[]" and ?e8.0 = "ValueError ''cannot reshape array''"
      and dir = "Map.empty(convmodel_file \<mapsto> (ModelPlot :: nat stored))"
      and ?e9.0 = "OSError ''Unable to open file''" and fresh = 0]
  note B = exceptions_propagate [where e = KeyboardInterrupt
      and import_tensorflow = "Inr ''2.1.0''" and version = "''2.1.0''"
      and ?e2.0 = "ModuleNotFoundError ''tensorflow''"
      and import_keras = "Inl (ModuleNotFoundError ''keras'')"
      and X_train = "[] :: real ndarray list" and y_train = "[3]"
      and img = "NDArray [] [0]" and ?X2d.0 = "[]"
      and arr = "NDArray [1] [0::real]" and ?e3.0 = "ValueError ''cannot reshape array''"
      and cm = opaque_black and label = 0 and ?e4.0 = "ValueError ''cannot reshape array''"
      and y = "[]" and rnd = round_float64 and title = None and remove_ticks = True
      and ?e5.0 = "ValueError ''zero-size array to reduction operation minimum which has no identity''"
      and pre = "[]" and f = im_reshape_bw and x = "NDArray [1] [0::real]" and post = "[]"
      and ?e6.0 = "ValueError ''cannot reshape array''"
      and X_img = "[NDArray [1] [0]]" and ?e7.0 = "ValueError ''cannot reshape array''"
      and bokeh_plot = "curry Inr" and X = "[(Finite 0, Finite 0)]" and ys = "[3]"
      and imgs = "[]" and rgbas = "[]" and ?e8.0 = "ValueError ''cannot reshape array''"
      and dir = "Map.empty(convmodel_file \<mapsto> (ModelPlot :: nat stored))"
      and ?e9.0 = "OSError ''Unable to open file''" and fresh = 0]
  from A B r1 r2 a0 lm v show ?thesis
    by (simp add: ndim_def path_exists_def then_do_def)
qed

text \<open>
  The claim as stated fails: the line magic raises (outside Colab it does not exist),
  and the cell returns normally.
\<close>

theorem exception_suppressed_counterexample:
  "cell_tensorflow_version
     (Inl (UsageError ''Line magic function `%tensorflow_version` not found.''))
     (Inr ''2.1.0'') (Inr ()) = Inr ()"
  by (simp add: cell_tensorflow_version_def try_except_Exception_pass_def then_do_def)

text \<open>
  C3 (as amended). The notebook keeps files of its own in the working directory. When
  \<open>convnet.h5\<close> does not exist, the two convolutional-model cells build a fresh
  model, train it and save it to \<open>convnet.h5\<close>; when \<open>convnet.h5\<close> holds a saved
  model, the first cell loads that model instead of building one, sets \<open>trained\<close>, and
  the second cell neither trains nor writes. The cell calling \<open>keras.utils.plot_model\<close>
  writes \<open>my_mnist_model.png\<close>.
\<close>

theorem convnet_cells_persist:
  "(\<not> path_exists dir convmodel_file \<longrightarrow>
      run_convnet_cells fresh fit dir
        = Inr ((dir(convmodel_file \<mapsto> SavedModel (fit fresh)), fit fresh), False))
   \<and> (dir convmodel_file = Some (SavedModel m) \<longrightarrow>
        run_convnet_cells fresh fit dir = Inr ((dir, m), True))
   \<and> cell_plot_model dir ''my_mnist_model.png'' = Some ModelPlot"
  by (simp add: run_convnet_cells_def cell_convnet_def cell_train_def path_exists_def
      load_model_def then_do_def cell_plot_model_def Let_def)

theorem convnet_cells_persist_witness:
  "\<not> path_exists (Map.empty :: nat directory) convmodel_file
   \<and> run_convnet_cells (0::nat) Suc Map.empty
        = Inr ((Map.empty(convmodel_file \<mapsto> SavedModel (Suc 0)), Suc 0), False)
   \<and> (Map.empty(convmodel_file \<mapsto> SavedModel (Suc 0))) convmodel_file = Some (SavedModel (Suc 0))
   \<and> run_convnet_cells (0::nat) Suc (Map.empty(convmodel_file \<mapsto> SavedModel (Suc 0)))
        = Inr ((Map.empty(convmodel_file \<mapsto> SavedModel (Suc 0)), Suc 0), True)"
  using convnet_cells_persist [of "Map.empty :: nat directory" 0 Suc "Suc 0"]
    convnet_cells_persist [of "Map.empty(convmodel_file \<mapsto> SavedModel (Suc 0))" 0 Suc "Suc 0"]
  by (simp add: path_exists_def)

text \<open>
  The claim as stated fails: run in an empty directory, the cells leave the file
  \<open>convnet.h5\<close> behind, and on the directory they leave the first cell loads the
  trained model where it built an untrained one before.
\<close>

theorem convnet_cells_counterexample:
  "path_exists (fst (fst (projr (run_convnet_cells (0::nat) Suc Map.empty)))) convmodel_file
   \<and> \<not> path_exists (Map.empty :: nat directory) convmodel_file
   \<and> cell_convnet (0::nat) Map.empty = Inr (0, False)
   \<and> cell_convnet (0::nat) (fst (fst (projr (run_convnet_cells (0::nat) Suc Map.empty)))) = Inr (Suc 0, True)"
  by (simp add: run_convnet_cells_def cell_convnet_def cell_train_def path_exists_def
      load_model_def then_do_def Let_def)

text \<open>
  C5 (as amended). Repository-defined helper functions do have deterministic contracts
  fixed by their arguments alone: \<open>im_reshape_bw\<close> raises ValueError on every array
  whose size is not 784, and on every array of 784 elements it returns the 28 by 28
  array whose rows are the 28 rows of the input in reverse order, each element
  multiplied by 255.
\<close>

theorem im_reshape_bw_contract:
  "(size_nd arr \<noteq> 784 \<longrightarrow> im_reshape_bw arr = Inl (ValueError ''cannot reshape array''))
   \<and> (wf_ndarray arr \<and> size_nd arr = 784 \<longrightarrow>
        (\<exists>out. im_reshape_bw arr = Inr out \<and> shape out = [28, 28]
           \<and> blocks 28 28 (flat out) = rev (map (map (\<lambda>x. x * 255)) (blocks 28 28 (flat arr)))))"
proof -
  have "blocks 28 28 (concat (rev (blocks 28 28 (map (\<lambda>x. x * 255) (flat arr)))))
          = rev (map (map (\<lambda>x. x * 255)) (blocks 28 28 (flat arr)))"
    if "wf_ndarray arr" "size_nd arr = 784"
  proof -
    from that have "length (map (\<lambda>x. x * 255) (flat arr)) = 28 * 28"
      by (simp add: wf_ndarray_def size_nd_def)
    from blocks_flip [OF this] show ?thesis by (simp add: blocks_map)
  qed
  then show ?thesis
    by (simp add: im_reshape_bw_def reshape_def then_do_def times_scalar_def flipud_def raise_def)
qed

theorem im_reshape_bw_contract_witness:
  "wf_ndarray (NDArray [784] (replicate 756 0 @ replicate 28 (1::int)))
   \<and> size_nd (NDArray [784] (replicate 756 0 @ replicate 28 (1::int))) = 784
   \<and> (\<exists>out. im_reshape_bw (NDArray [784] (replicate 756 0 @ replicate 28 (1::int))) = Inr out
         \<and> shape out = [28, 28]
         \<and> blocks 28 28 (flat out)
             = rev (map (map (\<lambda>x. x * 255)) (blocks 28 28 (flat (NDArray [784] (replicate 756 0 @ replicate 28 (1::int)))))))"
  using im_reshape_bw_contract [of "NDArray [784] (replicate 756 0 @ replicate 28 (1::int))"]
  by (simp add: wf_ndarray_def size_nd_def)

text \<open>
  The claim as stated fails: \<open>im_reshape_bw\<close> maps the image whose last row is 1 and
  whose other rows are 0 to the image whose first row is 255 and whose other rows are 0.
\<close>

theorem im_reshape_bw_deterministic_counterexample:
  "im_reshape_bw (NDArray [784] (replicate 756 0 @ replicate 28 (1::int)))
     = Inr (NDArray [28, 28] (replicate 28 255 @ replicate 756 0))"
proof -
  let ?rows = "replicate 27 (replicate 28 0) @ [replicate 28 (255::int)]"
  have scaled: "map (\<lambda>x. x * 255) (replicate 756 0 @ replicate 28 (1::int)) = concat ?rows"
    by (simp add: concat_replicate_replicate)
  have "blocks (length ?rows) 28 (concat ?rows) = ?rows"
    by (rule blocks_concat) auto
  then have "blocks 28 28 (concat ?rows) = ?rows" by simp
  then have flipped: "concat (rev (blocks 28 28 (concat ?rows))) = replicate 28 255 @ replicate 756 0"
    by (simp add: concat_replicate_replicate)
  have run: "im_reshape_bw (NDArray [784] xs)
      = Inr (NDArray [28, 28] (concat (rev (blocks 28 28 (map (\<lambda>x. x * 255) xs)))))" for xs :: "int list"
    by (simp add: im_reshape_bw_def reshape_def then_do_def times_scalar_def flipud_def size_nd_def)
  show ?thesis by (simp only: run scaled flipped)
qed

text \<open>
  C6. The code cell of the hashing notebook builds \<open>FeatureHasher(n_features=10)\<close>,
  transforms the list \<open>D\<close> of two dicts and calls \<open>toarray\<close>: the dense array has
  exactly 2 rows and 10 columns, whatever the hash functions are.
\<close>

theorem hashing_cell_shape:
  "shape (hashing_cell hash sign) = [2, 10] \<and> wf_ndarray (hashing_cell hash sign)
   \<and> length (flat (hashing_cell hash sign)) = 20 \<and> length D = 2"
proof -
  have "length (concat (map (phi hash sign 10) D)) = length (map (phi hash sign 10) D) * 10"
    by (rule length_concat_uniform) (auto simp: phi_def)
  then show ?thesis
    by (simp add: hashing_cell_def transform_def toarray_def wf_ndarray_def D_def Let_def)
qed

end
